theory Spec2Isabelle
  imports Complex_Main
begin

section \<open>Data model of \<open>src/client/src/App.js\<close>\<close>

text \<open>
  A coordinate is a two-element JavaScript array; the code reads \<open>coord[0]\<close> and
  \<open>coord[1]\<close>. Display order is \<open>[lat, lng]\<close>, the geometry library's order is
  \<open>[lng, lat]\<close>; \<open>coord => [coord[1], coord[0]]\<close> is \<open>prod.swap\<close>.
  JavaScript numbers are idealised as reals.
\<close>

type_synonym coord = "real \<times> real"

text \<open>A thrown JavaScript exception, with its message.\<close>

datatype error = Error string | TypeError string

text \<open>\<open>{lat, lng}\<close>, as \<open>geocodeAddress\<close> returns it.\<close>

record latlng =
  lat :: real
  lng :: real

text \<open>A flood report \<open>{id, lat, lng, severity}\<close> (\<open>window.reportSeverity\<close>).\<close>

record report = latlng +
  report_id :: nat
  severity :: string

text \<open>
  A drawn item \<open>{id, type, latlngs, color}\<close> (the \<open>pm:create\<close> handler). The code reads
  \<open>latlngs\<close> as an array of rings only when \<open>type\<close> is \<open>rectangle\<close> or \<open>polygon\<close>.
\<close>

record drawn_item =
  item_id :: nat
  item_type :: string
  latlngs :: "coord list list"
  color :: string

section \<open>The geometry library\<close>

datatype geometry = Point coord | LineString "coord list" | Polygon "coord list list"

text \<open>
  \<open>closestFloodZone\<close> holds either a point feature (line 160) or the bare coordinate
  array of a polygon's first ring (line 170).
\<close>

datatype flood_zone = Feature geometry | Coordinates "coord list"

text \<open>
  The feature constructors of the geometry library are not part of the repository; they
  are modelled by their validation: \<open>lineString\<close> throws on fewer than two positions,
  \<open>polygon\<close> throws on a ring with fewer than four positions or whose first and last
  positions differ, checking the rings in order.
\<close>

definition point :: "coord \<Rightarrow> geometry" where
  "point c = Point c"

definition lineString :: "coord list \<Rightarrow> error + geometry" where
  "lineString coordinates =
     (if length coordinates < 2
      then Inl (Error ''coordinates must be an array of two or more positions'')
      else Inr (LineString coordinates))"

fun polygon_rings :: "coord list list \<Rightarrow> error option" where
  "polygon_rings [] = None"
| "polygon_rings (ring # rings) =
     (if length ring < 4
      then Some (Error ''Each LinearRing of a Polygon must have 4 or more Positions.'')
      else if last ring \<noteq> hd ring
      then Some (Error ''First and last Position are not equivalent.'')
      else polygon_rings rings)"

definition polygon :: "coord list list \<Rightarrow> error + geometry" where
  "polygon coordinates =
     (case polygon_rings coordinates of
        Some e \<Rightarrow> Inl e
      | None \<Rightarrow> Inr (Polygon coordinates))"

text \<open>
  The geometric computations of the library are parameters of the model: the buffer of
  a geometry by a radius in a unit, the intersection test, the two distances, and the
  projection of a point onto a line, which may throw on an argument it does not accept.
  The intersection test is a parameter on the geometries it accepts. The polygon
  constructor accepts an empty array of rings, and the intersection test then throws a
  TypeError when it reads the polygon's outer ring; that case is written into
  \<open>checkDrawn\<close> below, as the read of the outer ring is in \<open>closestDrawn\<close>.
\<close>

record turf =
  buffer :: "geometry \<Rightarrow> real \<Rightarrow> string \<Rightarrow> geometry"
  booleanIntersects :: "geometry \<Rightarrow> geometry \<Rightarrow> bool"
  distance :: "geometry \<Rightarrow> geometry \<Rightarrow> string \<Rightarrow> real"
  pointToLineDistance :: "geometry \<Rightarrow> geometry \<Rightarrow> string \<Rightarrow> real"
  nearestPointOnLine :: "geometry \<Rightarrow> flood_zone \<Rightarrow> error + coord"

section \<open>\<open>checkRouteForFloods\<close> (lines 86--109)\<close>

text \<open>The loop over the reports (lines 90--96); \<open>True\<close> is the early \<open>return true\<close>.\<close>

fun checkReports :: "turf \<Rightarrow> geometry \<Rightarrow> report list \<Rightarrow> bool" where
  "checkReports T routeLine [] = False"
| "checkReports T routeLine (report # reports) =
     (let pt = point (lng report, lat report);
          bufferedPoint = buffer T pt 0.1 ''kilometers''
      in if booleanIntersects T routeLine bufferedPoint then True
         else checkReports T routeLine reports)"

definition isArea :: "drawn_item \<Rightarrow> bool" where
  "isArea item = (item_type item = ''rectangle'' \<or> item_type item = ''polygon'')"

text \<open>The loop over the drawn items (lines 99--106), followed by \<open>return false\<close>.\<close>

fun checkDrawn :: "turf \<Rightarrow> geometry \<Rightarrow> drawn_item list \<Rightarrow> error + bool" where
  "checkDrawn T routeLine [] = Inr False"
| "checkDrawn T routeLine (item # drawn) =
     (if isArea item then
        (let coordinates = map (map prod.swap) (latlngs item) in
         case polygon coordinates of
           Inl e \<Rightarrow> Inl e
         | Inr poly \<Rightarrow>
            (case coordinates of
               [] \<Rightarrow> Inl (TypeError ''Cannot read properties of undefined'')
             | _ # _ \<Rightarrow>
                 if booleanIntersects T routeLine poly then Inr True
                 else checkDrawn T routeLine drawn))
      else checkDrawn T routeLine drawn)"

definition checkRouteForFloods ::
  "turf \<Rightarrow> coord list \<Rightarrow> report list \<Rightarrow> drawn_item list \<Rightarrow> error + bool" where
  "checkRouteForFloods T routeCoords reports drawn =
     (case lineString (map prod.swap routeCoords) of
        Inl e \<Rightarrow> Inl e
      | Inr routeLine \<Rightarrow>
          if checkReports T routeLine reports then Inr True
          else checkDrawn T routeLine drawn)"

section \<open>Nearest flood zone (lines 151--173)\<close>

text \<open>
  \<open>minDistance\<close> starts at \<open>Infinity\<close>, written \<open>None\<close>; \<open>distance < minDistance\<close>
  is \<open>below\<close>.
\<close>

definition below :: "real \<Rightarrow> real option \<Rightarrow> bool" where
  "below d minDistance = (case minDistance of None \<Rightarrow> True | Some m \<Rightarrow> d < m)"

fun closestReports ::
  "turf \<Rightarrow> geometry \<Rightarrow> report list \<Rightarrow> flood_zone option \<times> real option
     \<Rightarrow> flood_zone option \<times> real option" where
  "closestReports T startPointTurf [] acc = acc"
| "closestReports T startPointTurf (report # reports) (closestFloodZone, minDistance) =
     (let pt = point (lng report, lat report);
          d = distance T startPointTurf pt ''kilometers''
      in if below d minDistance
         then closestReports T startPointTurf reports (Some (Feature pt), Some d)
         else closestReports T startPointTurf reports (closestFloodZone, minDistance))"

fun closestDrawn ::
  "turf \<Rightarrow> geometry \<Rightarrow> drawn_item list \<Rightarrow> flood_zone option \<times> real option
     \<Rightarrow> error + (flood_zone option \<times> real option)" where
  "closestDrawn T startPointTurf [] acc = Inr acc"
| "closestDrawn T startPointTurf (item # drawn) (closestFloodZone, minDistance) =
     (if isArea item then
        (let coordinates = map (map prod.swap) (latlngs item) in
         case polygon coordinates of
           Inl e \<Rightarrow> Inl e
         | Inr poly \<Rightarrow>
            (case coordinates of
               [] \<Rightarrow> Inl (TypeError ''Cannot read properties of undefined (reading length)'')
             | ring # _ \<Rightarrow>
                (case lineString ring of
                   Inl e \<Rightarrow> Inl e
                 | Inr line \<Rightarrow>
                    (let d = pointToLineDistance T startPointTurf line ''kilometers''
                     in if below d minDistance
                        then closestDrawn T startPointTurf drawn (Some (Coordinates ring), Some d)
                        else closestDrawn T startPointTurf drawn (closestFloodZone, minDistance)))))
      else closestDrawn T startPointTurf drawn (closestFloodZone, minDistance))"

definition closestFloodZone ::
  "turf \<Rightarrow> 'a latlng_scheme \<Rightarrow> report list \<Rightarrow> drawn_item list \<Rightarrow> error + flood_zone option" where
  "closestFloodZone T startCoords reports drawn =
     (let startPointTurf = point (lng startCoords, lat startCoords)
      in case closestDrawn T startPointTurf drawn
                (closestReports T startPointTurf reports (None, None)) of
           Inl e \<Rightarrow> Inl e
         | Inr (zone, minDistance) \<Rightarrow> Inr zone)"

section \<open>\<open>getRoute\<close> (lines 111--213)\<close>

text \<open>
  The network: the geocoder answers an address with a list of matches (the
  coordinates already parsed), the router answers a request from one \<open>lng,lat\<close>
  position to another. Both may fail (\<open>fetch\<close> rejects, or the body is not JSON). The
  router's answer also depends on which request of the run it is (0 the route, 1 and 2
  the detour legs): the same URL may be answered differently at different times.
\<close>

record osrm_route =
  coordinates :: "coord list"

record osrm_data =
  routes :: "osrm_route list option"

record network =
  nominatim :: "string \<Rightarrow> error + latlng list"
  osrm :: "nat \<Rightarrow> coord \<Rightarrow> coord \<Rightarrow> error + osrm_data"

datatype request = Nominatim string | Osrm coord coord

text \<open>
  What a run does besides setting state: \<open>fetch\<close> of a request, \<open>Promise.all\<close> of
  several fetches (line 185), \<open>alert\<close> and \<open>console.error\<close>.
\<close>

datatype effect =
  Fetch request | FetchAll "request list" | Alert string | ConsoleError string

record app =
  start :: string
  end' :: string
  route :: "coord list option"
  altRoute :: "coord list option"
  startPoint :: "latlng option"
  endPoint :: "latlng option"
  floodReports :: "report list"
  drawnItems :: "drawn_item list"
  showWarning :: bool

text \<open>\<open>geocodeAddress\<close> (lines 68--84).\<close>

definition geocodeAddress :: "network \<Rightarrow> string \<Rightarrow> latlng option \<times> effect list" where
  "geocodeAddress N address =
     (case nominatim N address of
        Inl e \<Rightarrow> (None, [Fetch (Nominatim address), ConsoleError ''Error geocoding address:''])
      | Inr data \<Rightarrow>
         (case data of
            [] \<Rightarrow> (None, [Fetch (Nominatim address)])
          | d # _ \<Rightarrow> (Some \<lparr>lat = lat d, lng = lng d\<rparr>, [Fetch (Nominatim address)])))"

text \<open>The \<open>catch\<close> block of \<open>getRoute\<close> (lines 209--212): the state set so far stays.\<close>

definition caught :: "app \<Rightarrow> effect list \<Rightarrow> app \<times> effect list" where
  "caught s fx =
     (s, fx @ [ConsoleError ''Error fetching route:'',
               Alert ''An error occurred while getting the route.''])"

text \<open>The two detour legs and their merge (lines 181--199).\<close>

definition detourLegs ::
  "network \<Rightarrow> latlng \<Rightarrow> latlng \<Rightarrow> coord \<Rightarrow> app \<Rightarrow> app \<times> effect list" where
  "detourLegs N startCoords endCoords detourPoint s =
     (let waypoint = (fst detourPoint + 0.01, snd detourPoint + 0.01);
          origin = (lng startCoords, lat startCoords);
          destination = (lng endCoords, lat endCoords);
          fx = [FetchAll [Osrm origin waypoint, Osrm waypoint destination]]
      in case osrm N 1 origin waypoint of
           Inl e \<Rightarrow> caught s fx
         | Inr data1 \<Rightarrow>
            (case osrm N 2 waypoint destination of
               Inl e \<Rightarrow> caught s fx
             | Inr data2 \<Rightarrow>
                (case routes data1 of
                   Some (r1 # _) \<Rightarrow>
                     (case routes data2 of
                        Some (r2 # _) \<Rightarrow>
                          (s\<lparr>altRoute :=
                               Some (map prod.swap (coordinates r1 @ coordinates r2))\<rparr>, fx)
                      | _ \<Rightarrow> (s, fx))
                 | _ \<Rightarrow> (s, fx))))"

text \<open>The alternative route calculation (lines 149--201).\<close>

definition alternativeRoute ::
  "turf \<Rightarrow> network \<Rightarrow> latlng \<Rightarrow> latlng \<Rightarrow> coord list \<Rightarrow> app \<Rightarrow> app \<times> effect list" where
  "alternativeRoute T N startCoords endCoords routeCoordinates s =
     (case closestFloodZone T startCoords (floodReports s) (drawnItems s) of
        Inl e \<Rightarrow> caught s []
      | Inr None \<Rightarrow> (s, [])
      | Inr (Some zone) \<Rightarrow>
         (case lineString (map prod.swap routeCoordinates) of
            Inl e \<Rightarrow> caught s []
          | Inr mainRouteLine \<Rightarrow>
             (case nearestPointOnLine T mainRouteLine zone of
                Inl e \<Rightarrow> caught s []
              | Inr detourPoint \<Rightarrow> detourLegs N startCoords endCoords detourPoint s)))"

text \<open>The body of the \<open>try\<close> once both addresses are geocoded (lines 134--208).\<close>

definition fetchRoute ::
  "turf \<Rightarrow> network \<Rightarrow> latlng \<Rightarrow> latlng \<Rightarrow> app \<Rightarrow> app \<times> effect list" where
  "fetchRoute T N startCoords endCoords s =
     (let origin = (lng startCoords, lat startCoords);
          destination = (lng endCoords, lat endCoords);
          fx = [Fetch (Osrm origin destination)]
      in case osrm N 0 origin destination of
           Inl e \<Rightarrow> caught s fx
         | Inr data \<Rightarrow>
            (case routes data of
               Some (r # _) \<Rightarrow>
                 (let routeCoordinates = map prod.swap (coordinates r);
                      s1 = s\<lparr>route := Some routeCoordinates\<rparr>
                  in case checkRouteForFloods T routeCoordinates (floodReports s1) (drawnItems s1) of
                       Inl e \<Rightarrow> caught s1 fx
                     | Inr True \<Rightarrow>
                         (let (s2, fx2) = alternativeRoute T N startCoords endCoords
                                            routeCoordinates (s1\<lparr>showWarning := True\<rparr>)
                          in (s2, fx @ fx2))
                     | Inr False \<Rightarrow> (s1\<lparr>showWarning := False, altRoute := None\<rparr>, fx))
             | _ \<Rightarrow> (s, fx @ [Alert ''Could not find a route.''])))"

definition getRoute :: "turf \<Rightarrow> network \<Rightarrow> app \<Rightarrow> app \<times> effect list" where
  "getRoute T N s0 =
     (let s = s0\<lparr>route := None, altRoute := None, startPoint := None,
                 endPoint := None, showWarning := False\<rparr>
      in if start s = [] \<or> end' s = []
         then (s, [Alert ''Please enter both start and end points.''])
         else
           (let (startCoords, fx1) = geocodeAddress N (start s);
                (endCoords, fx2) = geocodeAddress N (end' s)
            in case startCoords of
                 None \<Rightarrow>
                   (s, fx1 @ fx2 @
                       [Alert ''Could not find one or both locations. Please try again.''])
               | Some sc \<Rightarrow>
                  (case endCoords of
                     None \<Rightarrow>
                       (s, fx1 @ fx2 @
                           [Alert ''Could not find one or both locations. Please try again.''])
                   | Some ec \<Rightarrow>
                      (let (s', fx3) = fetchRoute T N sc ec
                                         (s\<lparr>startPoint := Some sc, endPoint := Some ec\<rparr>)
                       in (s', fx1 @ fx2 @ fx3)))))"

section \<open>Hazard geometry, in the words of the specification\<close>

text \<open>
  The effective geometry of a report is the 100 m (0.1 km) buffer around its point, that
  of a drawn area is the polygon of its rings; the route is the line through its
  coordinates. All three are in the geometry library's \<open>[lng, lat]\<close> order.
\<close>

definition reportGeometry :: "turf \<Rightarrow> report \<Rightarrow> geometry" where
  "reportGeometry T report = buffer T (Point (lng report, lat report)) 0.1 ''kilometers''"

definition areaGeometry :: "drawn_item \<Rightarrow> geometry" where
  "areaGeometry item = Polygon (map (map prod.swap) (latlngs item))"

definition routeGeometry :: "coord list \<Rightarrow> geometry" where
  "routeGeometry routeCoords = LineString (map prod.swap routeCoords)"

text \<open>A ring the polygon constructor accepts: four positions or more, the last equal to the first.\<close>

definition validRing :: "coord list \<Rightarrow> bool" where
  "validRing ring = (4 \<le> length ring \<and> last ring = hd ring)"

text \<open>
  The candidates of the nearest-hazard selection, in the order the code meets them: for
  each report the distance from the origin to its point, for each drawn area the distance
  from the origin to its outer ring taken as a line; each with the geometry that would be
  selected.
\<close>

definition reportCandidate :: "turf \<Rightarrow> geometry \<Rightarrow> report \<Rightarrow> real \<times> flood_zone" where
  "reportCandidate T origin report =
     (distance T origin (Point (lng report, lat report)) ''kilometers'',
      Feature (Point (lng report, lat report)))"

definition areaCandidate :: "turf \<Rightarrow> geometry \<Rightarrow> drawn_item \<Rightarrow> real \<times> flood_zone" where
  "areaCandidate T origin item =
     (let ring = map prod.swap (hd (latlngs item))
      in (pointToLineDistance T origin (LineString ring) ''kilometers'', Coordinates ring))"

definition candidates ::
  "turf \<Rightarrow> geometry \<Rightarrow> report list \<Rightarrow> drawn_item list \<Rightarrow> (real \<times> flood_zone) list" where
  "candidates T origin reports drawn =
     map (reportCandidate T origin) reports @ map (areaCandidate T origin) (filter isArea drawn)"

text \<open>One step of the selection: a candidate replaces the current one when strictly nearer.\<close>

definition nearer ::
  "flood_zone option \<times> real option \<Rightarrow> real \<times> flood_zone \<Rightarrow> flood_zone option \<times> real option" where
  "nearer acc c = (if below (fst c) (snd acc) then (Some (snd c), Some (fst c)) else acc)"

text \<open>
  A detour leg yields no route when its request fails or its answer holds no candidate;
  otherwise its coordinates are those of the first candidate.
\<close>

definition noRoute :: "error + osrm_data \<Rightarrow> bool" where
  "noRoute response =
     (case response of
        Inl e \<Rightarrow> True
      | Inr data \<Rightarrow> (case routes data of Some (r # _) \<Rightarrow> False | _ \<Rightarrow> True))"

definition legCoordinates :: "error + osrm_data \<Rightarrow> coord list" where
  "legCoordinates response =
     (case response of
        Inl e \<Rightarrow> []
      | Inr data \<Rightarrow> (case routes data of Some (r # _) \<Rightarrow> coordinates r | _ \<Rightarrow> []))"

text \<open>The bypass waypoint of a detour anchor, and a \<open>{lat, lng}\<close> object as a position.\<close>

definition bypass :: "coord \<Rightarrow> coord" where
  "bypass anchor = (fst anchor + 0.01, snd anchor + 0.01)"

definition lngLat :: "latlng \<Rightarrow> coord" where
  "lngLat p = (lng p, lat p)"

text \<open>Two reports that agree on every field but the severity.\<close>

definition sameButSeverity :: "report \<Rightarrow> report \<Rightarrow> bool" where
  "sameButSeverity r r' = (lat r' = lat r \<and> lng r' = lng r \<and> report_id r' = report_id r)"

section \<open>An instance of the library and of the network, for running the model\<close>

text \<open>
  Every theorem below holds for all geometric computations \<open>T\<close> and all networks \<open>N\<close>.
  To run the model on concrete inputs, \<open>vertexTurf\<close> is a small instance: a buffer is the
  geometry itself, two geometries intersect when they share a position, distances are
  taxicab distances between positions, and the projection onto a line returns the line's
  position nearest to a point feature and rejects a bare coordinate array.
\<close>

fun positions :: "geometry \<Rightarrow> coord list" where
  "positions (Point c) = [c]"
| "positions (LineString cs) = cs"
| "positions (Polygon rings) = concat rings"

definition taxicab :: "coord \<Rightarrow> coord \<Rightarrow> real" where
  "taxicab a b = \<bar>fst a - fst b\<bar> + \<bar>snd a - snd b\<bar>"

definition vertexTurf :: turf where
  "vertexTurf =
     \<lparr>buffer = (\<lambda>g radius units. g),
      booleanIntersects = (\<lambda>a b. list_ex (\<lambda>p. list_ex (\<lambda>q. p = q) (positions b)) (positions a)),
      distance = (\<lambda>a b units.
         case positions a of [] \<Rightarrow> 0
         | p # _ \<Rightarrow> (case positions b of [] \<Rightarrow> 0 | q # _ \<Rightarrow> taxicab p q)),
      pointToLineDistance = (\<lambda>a line units.
         case positions a of [] \<Rightarrow> 0
         | p # _ \<Rightarrow> (case positions line of [] \<Rightarrow> 0
                    | q # qs \<Rightarrow> fold (\<lambda>v m. min m (taxicab p v)) qs (taxicab p q))),
      nearestPointOnLine = (\<lambda>line zone.
         case zone of
           Coordinates ring \<Rightarrow> Inl (Error ''coord must be GeoJSON Point or an Array of numbers'')
         | Feature g \<Rightarrow>
            (case positions g of [] \<Rightarrow> Inl (Error ''coord is required'')
             | p # _ \<Rightarrow>
                (case positions line of [] \<Rightarrow> Inl (Error ''coord is required'')
                 | q # qs \<Rightarrow>
                    Inr (fold (\<lambda>v best. if taxicab p v < taxicab p best then v else best) qs q))))\<rparr>"

text \<open>
  \<open>straightNet\<close> geocodes two addresses and routes from \<open>a\<close> to \<open>b\<close> through their
  midpoint; \<open>brokenNet\<close> is the same network with the second detour leg failing.
\<close>

definition straightRoute :: "coord \<Rightarrow> coord \<Rightarrow> osrm_data" where
  "straightRoute a b =
     \<lparr>routes = Some [\<lparr>coordinates = [a, ((fst a + fst b) / 2, (snd a + snd b) / 2), b]\<rparr>]\<rparr>"

definition geocoder :: "string \<Rightarrow> error + latlng list" where
  "geocoder address =
     (if address = ''Gachibowli'' then Inr [\<lparr>lat = 17.30, lng = 78.40\<rparr>]
      else if address = ''Uppal'' then Inr [\<lparr>lat = 17.40, lng = 78.50\<rparr>]
      else Inr [])"

definition straightNet :: network where
  "straightNet = \<lparr>nominatim = geocoder, osrm = (\<lambda>k a b. Inr (straightRoute a b))\<rparr>"

definition brokenNet :: network where
  "brokenNet =
     \<lparr>nominatim = geocoder,
      osrm = (\<lambda>k a b. if k = 2 then Inl (Error ''Failed to fetch'') else Inr (straightRoute a b))\<rparr>"

definition trip :: "report list \<Rightarrow> drawn_item list \<Rightarrow> app" where
  "trip reports drawn =
     \<lparr>start = ''Gachibowli'', end' = ''Uppal'', route = None, altRoute = None,
      startPoint = None, endPoint = None, floodReports = reports, drawnItems = drawn,
      showWarning = False\<rparr>"

text \<open>
  Inputs: the route of \<open>straightNet\<close> between the two addresses, in display order; a
  report on its middle position and one on its first; a rectangle with a corner on the
  middle position and one away from the route, both with closed rings; a polygon whose
  only ring has two positions; and a drawn marker.
\<close>

definition mainRoute :: "coord list" where
  "mainRoute = [(17.30, 78.40), (17.35, 78.45), (17.40, 78.50)]"

definition midReport :: report where
  "midReport = \<lparr>lat = 17.35, lng = 78.45, report_id = 1, severity = ''High''\<rparr>"

definition startReport :: report where
  "startReport = \<lparr>lat = 17.30, lng = 78.40, report_id = 2, severity = ''Low''\<rparr>"

definition cornerRectangle :: drawn_item where
  "cornerRectangle =
     \<lparr>item_id = 3, item_type = ''rectangle'',
      latlngs = [[(17.35, 78.45), (17.35, 78.46), (17.36, 78.46), (17.36, 78.45), (17.35, 78.45)]],
      color = ''red''\<rparr>"

definition farRectangle :: drawn_item where
  "farRectangle =
     \<lparr>item_id = 4, item_type = ''rectangle'',
      latlngs = [[(10, 10), (10, 11), (11, 11), (11, 10), (10, 10)]],
      color = ''red''\<rparr>"

definition sliver :: drawn_item where
  "sliver =
     \<lparr>item_id = 5, item_type = ''polygon'',
      latlngs = [[(17.34, 78.44), (17.36, 78.46)]],
      color = ''red''\<rparr>"

definition marker :: drawn_item where
  "marker =
     \<lparr>item_id = 6, item_type = ''Marker'', latlngs = [[(17.35, 78.45)]], color = ''red''\<rparr>"

section \<open>The polygon constructor\<close>

lemma validRing_swap: "validRing (map prod.swap ring) = validRing ring"
proof (cases "ring = []")
  case True
  then show ?thesis by (simp add: validRing_def)
next
  case False
  have "prod.swap a = prod.swap b \<longleftrightarrow> a = b" for a b :: coord
    by (cases a; cases b) auto
  with False show ?thesis
    by (simp add: validRing_def last_map hd_map)
qed

lemma polygon_rings_None: "polygon_rings rings = None \<longleftrightarrow> list_all validRing rings"
  by (induction rings) (auto simp: validRing_def)

lemma polygon_valid:
  assumes "list_all validRing rings"
  shows "polygon (map (map prod.swap) rings) = Inr (Polygon (map (map prod.swap) rings))"
proof -
  from assms have "list_all validRing (map (map prod.swap) rings)"
    by (simp add: list_all_iff validRing_swap)
  then have "polygon_rings (map (map prod.swap) rings) = None"
    by (simp only: polygon_rings_None)
  then show ?thesis by (simp add: polygon_def)
qed

lemma polygon_short:
  assumes "ring \<in> set rings" and "length ring < 4"
  shows "\<exists>e. polygon (map (map prod.swap) rings) = Inl e"
proof -
  have "\<not> list_all validRing (map (map prod.swap) rings)"
  proof
    assume "list_all validRing (map (map prod.swap) rings)"
    then have "validRing ring"
      using assms(1) by (simp add: list_all_iff validRing_swap)
    then show False
      using assms(2) by (simp add: validRing_def)
  qed
  then obtain e where "polygon_rings (map (map prod.swap) rings) = Some e"
    using polygon_rings_None by fastforce
  then show ?thesis by (simp add: polygon_def)
qed

section \<open>The intersection check\<close>

lemma checkReports_iff:
  "checkReports T routeLine reports \<longleftrightarrow>
     (\<exists>report\<in>set reports. booleanIntersects T routeLine (reportGeometry T report))"
  by (induction reports) (auto simp: reportGeometry_def point_def Let_def)

lemma checkDrawn_valid:
  "\<forall>item\<in>set drawn. isArea item \<longrightarrow>
     latlngs item \<noteq> [] \<and> list_all validRing (latlngs item) \<Longrightarrow>
   checkDrawn T routeLine drawn =
     Inr (\<exists>item\<in>set drawn. isArea item \<and> booleanIntersects T routeLine (areaGeometry item))"
  by (induction drawn) (auto simp: polygon_valid areaGeometry_def Let_def split: list.splits)

lemma checkDrawn_filter:
  "checkDrawn T routeLine (filter isArea drawn) = checkDrawn T routeLine drawn"
  by (induction drawn) (auto simp: Let_def split: sum.splits list.splits)

lemma checkDrawn_append:
  "\<forall>item\<in>set pre. isArea item \<longrightarrow>
     latlngs item \<noteq> [] \<and> list_all validRing (latlngs item) \<Longrightarrow>
   checkDrawn T routeLine (pre @ rest) =
     (if \<exists>item\<in>set pre. isArea item \<and> booleanIntersects T routeLine (areaGeometry item)
      then Inr True else checkDrawn T routeLine rest)"
  by (induction pre) (auto simp: polygon_valid areaGeometry_def Let_def split: list.splits)

text \<open>A rectangle or polygon without rings passes the constructor and stops the check.\<close>

lemma checkDrawn_ringless:
  assumes "isArea item" and "latlngs item = []"
  shows "checkDrawn T routeLine (item # drawn) =
           Inl (TypeError ''Cannot read properties of undefined'')"
  using assms by (simp add: polygon_def)

section \<open>The nearest-hazard selection\<close>

lemma closestReports_foldl:
  "closestReports T origin reports acc = foldl nearer acc (map (reportCandidate T origin) reports)"
proof (induction reports arbitrary: acc)
  case Nil
  then show ?case by simp
next
  case (Cons report reports)
  obtain z m where acc: "acc = (z, m)" by (cases acc)
  show ?case
    unfolding acc by (simp add: Cons.IH nearer_def reportCandidate_def point_def Let_def)
qed

lemma closestDrawn_foldl:
  assumes "\<forall>item\<in>set drawn. isArea item \<longrightarrow>
             latlngs item \<noteq> [] \<and> list_all validRing (latlngs item)"
  shows "closestDrawn T origin drawn acc =
           Inr (foldl nearer acc (map (areaCandidate T origin) (filter isArea drawn)))"
  using assms
proof (induction drawn arbitrary: acc)
  case Nil
  then show ?case by simp
next
  case (Cons item drawn)
  obtain z m where acc: "acc = (z, m)" by (cases acc)
  have rest: "\<forall>item\<in>set drawn. isArea item \<longrightarrow>
                latlngs item \<noteq> [] \<and> list_all validRing (latlngs item)"
    using Cons.prems by simp
  show ?case
  proof (cases "isArea item")
    case False
    then show ?thesis unfolding acc by (simp add: Cons.IH [OF rest])
  next
    case True
    with Cons.prems obtain ring rings where
      rings: "latlngs item = ring # rings" and valid: "list_all validRing (latlngs item)"
      by (cases "latlngs item") auto
    from valid rings have "4 \<le> length ring" by (simp add: validRing_def)
    then have line: "lineString (map prod.swap ring) = Inr (LineString (map prod.swap ring))"
      by (simp add: lineString_def)
    have poly: "polygon (map prod.swap ring # map (map prod.swap) rings) =
                  Inr (Polygon (map prod.swap ring # map (map prod.swap) rings))"
      using polygon_valid [OF valid] rings by simp
    show ?thesis
      unfolding acc using True
      by (simp add: rings poly line Cons.IH [OF rest] nearer_def areaCandidate_def Let_def)
  qed
qed

lemma closestDrawn_filter:
  "closestDrawn T origin (filter isArea drawn) acc = closestDrawn T origin drawn acc"
proof (induction drawn arbitrary: acc)
  case Nil
  then show ?case by simp
next
  case (Cons item drawn)
  obtain z m where acc: "acc = (z, m)" by (cases acc)
  show ?case
    unfolding acc
    by (simp add: Cons.IH Let_def split: sum.splits list.splits)
qed

text \<open>The selection from a current candidate: it stays, or a strictly nearer one replaces it.\<close>

lemma foldl_nearer_Some:
  "(foldl nearer (Some z0, Some m0) cs = (Some z0, Some m0) \<and> (\<forall>c\<in>set cs. m0 \<le> fst c)) \<or>
   (\<exists>pre d z post. cs = pre @ (d, z) # post \<and> foldl nearer (Some z0, Some m0) cs = (Some z, Some d)
      \<and> d < m0 \<and> (\<forall>c\<in>set pre. d < fst c) \<and> (\<forall>c\<in>set post. d \<le> fst c))"
proof (induction cs arbitrary: z0 m0)
  case Nil
  then show ?case by simp
next
  case (Cons c cs)
  obtain d1 z1 where c: "c = (d1, z1)" by (cases c)
  show ?case
  proof (cases "d1 < m0")
    case True
    then have step: "nearer (Some z0, Some m0) c = (Some z1, Some d1)"
      by (simp add: nearer_def below_def c)
    from Cons.IH [of z1 d1] show ?thesis
    proof
      assume stay: "foldl nearer (Some z1, Some d1) cs = (Some z1, Some d1) \<and> (\<forall>c\<in>set cs. d1 \<le> fst c)"
      have "c # cs = [] @ (d1, z1) # cs" by (simp add: c)
      with stay step True show ?thesis by (intro disjI2 exI[of _ "[]"] exI[of _ d1] exI[of _ z1] exI[of _ cs]) simp
    next
      assume "\<exists>pre d z post. cs = pre @ (d, z) # post \<and> foldl nearer (Some z1, Some d1) cs = (Some z, Some d)
                \<and> d < d1 \<and> (\<forall>c\<in>set pre. d < fst c) \<and> (\<forall>c\<in>set post. d \<le> fst c)"
      then obtain pre d z post where
        h: "cs = pre @ (d, z) # post" "foldl nearer (Some z1, Some d1) cs = (Some z, Some d)"
           "d < d1" "\<forall>c\<in>set pre. d < fst c" "\<forall>c\<in>set post. d \<le> fst c"
        by blast
      have "c # cs = (c # pre) @ (d, z) # post" using h(1) by simp
      moreover have "foldl nearer (Some z0, Some m0) (c # cs) = (Some z, Some d)"
        using step h(2) by simp
      moreover have "d < m0" using h(3) True by simp
      moreover have "\<forall>x\<in>set (c # pre). d < fst x" using h(3,4) c by simp
      ultimately show ?thesis using h(5) by blast
    qed
  next
    case False
    then have step: "nearer (Some z0, Some m0) c = (Some z0, Some m0)"
      by (simp add: nearer_def below_def c)
    from Cons.IH [of z0 m0] show ?thesis
    proof
      assume "foldl nearer (Some z0, Some m0) cs = (Some z0, Some m0) \<and> (\<forall>c\<in>set cs. m0 \<le> fst c)"
      with step False c show ?thesis by simp
    next
      assume "\<exists>pre d z post. cs = pre @ (d, z) # post \<and> foldl nearer (Some z0, Some m0) cs = (Some z, Some d)
                \<and> d < m0 \<and> (\<forall>c\<in>set pre. d < fst c) \<and> (\<forall>c\<in>set post. d \<le> fst c)"
      then obtain pre d z post where
        h: "cs = pre @ (d, z) # post" "foldl nearer (Some z0, Some m0) cs = (Some z, Some d)"
           "d < m0" "\<forall>c\<in>set pre. d < fst c" "\<forall>c\<in>set post. d \<le> fst c"
        by blast
      have "c # cs = (c # pre) @ (d, z) # post" using h(1) by simp
      moreover have "foldl nearer (Some z0, Some m0) (c # cs) = (Some z, Some d)"
        using step h(2) by simp
      moreover have "\<forall>x\<in>set (c # pre). d < fst x" using h(3,4) c False by simp
      ultimately show ?thesis using h(3,5) by blast
    qed
  qed
qed

text \<open>The selection from nothing: the first candidate of the smallest distance.\<close>

lemma foldl_nearer_first_min:
  assumes "cs \<noteq> []"
  shows "\<exists>pre d z post. cs = pre @ (d, z) # post
           \<and> foldl nearer (None, None) cs = (Some z, Some d)
           \<and> (\<forall>c\<in>set pre. d < fst c) \<and> (\<forall>c\<in>set post. d \<le> fst c)"
proof -
  from assms obtain d0 z0 rest where cs: "cs = (d0, z0) # rest"
    by (cases cs) auto
  have step: "foldl nearer (None, None) cs = foldl nearer (Some z0, Some d0) rest"
    by (simp add: cs nearer_def below_def)
  from foldl_nearer_Some [of z0 d0 rest] show ?thesis
  proof
    assume "foldl nearer (Some z0, Some d0) rest = (Some z0, Some d0) \<and> (\<forall>c\<in>set rest. d0 \<le> fst c)"
    then have "cs = [] @ (d0, z0) # rest \<and> foldl nearer (None, None) cs = (Some z0, Some d0)
        \<and> (\<forall>c\<in>set []. d0 < fst c) \<and> (\<forall>c\<in>set rest. d0 \<le> fst c)"
      using step cs by simp
    then show ?thesis by blast
  next
    assume "\<exists>pre d z post. rest = pre @ (d, z) # post \<and> foldl nearer (Some z0, Some d0) rest = (Some z, Some d)
                \<and> d < d0 \<and> (\<forall>c\<in>set pre. d < fst c) \<and> (\<forall>c\<in>set post. d \<le> fst c)"
    then obtain pre d z post where
      h: "rest = pre @ (d, z) # post" "foldl nearer (Some z0, Some d0) rest = (Some z, Some d)"
         "d < d0" "\<forall>c\<in>set pre. d < fst c" "\<forall>c\<in>set post. d \<le> fst c"
      by blast
    have "cs = ((d0, z0) # pre) @ (d, z) # post" using cs h(1) by simp
    moreover have "foldl nearer (None, None) cs = (Some z, Some d)" using step h(2) by simp
    moreover have "\<forall>x\<in>set ((d0, z0) # pre). d < fst x" using h(3,4) by simp
    ultimately show ?thesis using h(5) by blast
  qed
qed

lemma closestFloodZone_foldl:
  assumes "\<forall>item\<in>set drawn. isArea item \<longrightarrow>
             latlngs item \<noteq> [] \<and> list_all validRing (latlngs item)"
  shows "closestFloodZone T startCoords reports drawn =
           Inr (fst (foldl nearer (None, None)
                  (candidates T (Point (lng startCoords, lat startCoords)) reports drawn)))"
  by (simp add: closestFloodZone_def closestDrawn_foldl [OF assms] closestReports_foldl
        candidates_def point_def Let_def case_prod_unfold)

section \<open>Runs of \<open>getRoute\<close> that request the detour legs\<close>

lemma detourLegs_run:
  assumes "detourLegs N sc ec dp s = (s', fx)"
  shows "(\<exists>rest. fx = FetchAll [Osrm (lngLat sc) (bypass dp), Osrm (bypass dp) (lngLat ec)] # rest
            \<and> (\<forall>reqs. FetchAll reqs \<notin> set rest))
       \<and> s' = (if noRoute (osrm N 1 (lngLat sc) (bypass dp)) \<or> noRoute (osrm N 2 (bypass dp) (lngLat ec))
               then s
               else s\<lparr>altRoute := Some (map prod.swap
                       (legCoordinates (osrm N 1 (lngLat sc) (bypass dp)) @
                        legCoordinates (osrm N 2 (bypass dp) (lngLat ec))))\<rparr>)"
  using assms
  by (auto simp: detourLegs_def caught_def noRoute_def legCoordinates_def bypass_def lngLat_def Let_def
           split: sum.splits option.splits list.splits)

lemma alternativeRoute_legs:
  assumes "alternativeRoute T N sc ec rc s = (s', fx)" and "FetchAll reqs \<in> set fx"
  shows "\<exists>zone dp. closestFloodZone T sc (floodReports s) (drawnItems s) = Inr (Some zone)
           \<and> nearestPointOnLine T (routeGeometry rc) zone = Inr dp
           \<and> detourLegs N sc ec dp s = (s', fx)"
  using assms
  by (auto simp: alternativeRoute_def caught_def lineString_def routeGeometry_def
           split: sum.splits option.splits if_splits)

lemma alternativeRoute_quiet:
  assumes "alternativeRoute T N sc ec rc s = (s', fx)" and "\<forall>reqs. FetchAll reqs \<notin> set fx"
  shows "s' = s"
  using assms
  by (auto simp: alternativeRoute_def caught_def
           split: sum.splits option.splits if_splits dest!: detourLegs_run)

lemma fetchRoute_legs:
  assumes "fetchRoute T N sc ec s = (s', fx)" and "FetchAll reqs \<in> set fx"
  shows "\<exists>data r rs fx2.
           osrm N 0 (lngLat sc) (lngLat ec) = Inr data \<and> routes data = Some (r # rs)
           \<and> checkRouteForFloods T (map prod.swap (coordinates r)) (floodReports s) (drawnItems s) = Inr True
           \<and> alternativeRoute T N sc ec (map prod.swap (coordinates r))
                (s\<lparr>route := Some (map prod.swap (coordinates r)), showWarning := True\<rparr>) = (s', fx2)
           \<and> fx = Fetch (Osrm (lngLat sc) (lngLat ec)) # fx2"
  using assms
  by (auto simp: fetchRoute_def caught_def lngLat_def Let_def
           split: sum.splits option.splits list.splits bool.splits prod.splits)

lemma fetchRoute_quiet:
  assumes "fetchRoute T N sc ec s = (s', fx)" and "\<forall>reqs. FetchAll reqs \<notin> set fx"
  shows "altRoute s' = altRoute s \<or> altRoute s' = None"
  using assms
  by (auto simp: fetchRoute_def caught_def Let_def 
           split: sum.splits option.splits list.splits bool.splits prod.splits
           dest!: alternativeRoute_quiet)

lemma getRoute_fetch:
  assumes "getRoute T N s = (s', fx)" and "FetchAll reqs \<in> set fx"
  shows "\<exists>sc ec s1 fx3.
           fst (geocodeAddress N (start s)) = Some sc \<and> fst (geocodeAddress N (end' s)) = Some ec
           \<and> fetchRoute T N sc ec s1 = (s', fx3)
           \<and> floodReports s1 = floodReports s \<and> drawnItems s1 = drawnItems s
           \<and> startPoint s1 = Some sc \<and> endPoint s1 = Some ec \<and> altRoute s1 = None
           \<and> FetchAll reqs \<in> set fx3"
  using assms
  by (fastforce simp: getRoute_def geocodeAddress_def Let_def
           split: sum.splits option.splits list.splits prod.splits if_splits)

lemma getRoute_quiet:
  assumes "getRoute T N s = (s', fx)" and "\<forall>reqs. FetchAll reqs \<notin> set fx"
  shows "altRoute s' = None"
  using assms
  by (auto simp: getRoute_def geocodeAddress_def Let_def
           split: sum.splits option.splits list.splits prod.splits if_splits
           dest!: fetchRoute_quiet)

lemma getRoute_legs:
  assumes "getRoute T N s = (s', fx)" and "FetchAll reqs \<in> set fx"
  shows "\<exists>sc ec data r rs zone anchor.
           fst (geocodeAddress N (start s)) = Some sc \<and> fst (geocodeAddress N (end' s)) = Some ec
           \<and> osrm N 0 (lngLat sc) (lngLat ec) = Inr data \<and> routes data = Some (r # rs)
           \<and> checkRouteForFloods T (map prod.swap (coordinates r)) (floodReports s) (drawnItems s) = Inr True
           \<and> closestFloodZone T sc (floodReports s) (drawnItems s) = Inr (Some zone)
           \<and> nearestPointOnLine T (routeGeometry (map prod.swap (coordinates r))) zone = Inr anchor
           \<and> reqs = [Osrm (lngLat sc) (bypass anchor), Osrm (bypass anchor) (lngLat ec)]
           \<and> startPoint s' = Some sc \<and> endPoint s' = Some ec
           \<and> route s' = Some (map prod.swap (coordinates r)) \<and> showWarning s'
           \<and> altRoute s' =
               (if noRoute (osrm N 1 (lngLat sc) (bypass anchor)) \<or>
                   noRoute (osrm N 2 (bypass anchor) (lngLat ec))
                then None
                else Some (map prod.swap
                       (legCoordinates (osrm N 1 (lngLat sc) (bypass anchor)) @
                        legCoordinates (osrm N 2 (bypass anchor) (lngLat ec)))))"
proof -
  from getRoute_fetch [OF assms] obtain sc ec s1 fx3 where
    geo: "fst (geocodeAddress N (start s)) = Some sc" "fst (geocodeAddress N (end' s)) = Some ec"
    and fetch: "fetchRoute T N sc ec s1 = (s', fx3)"
    and s1: "floodReports s1 = floodReports s" "drawnItems s1 = drawnItems s"
      "startPoint s1 = Some sc" "endPoint s1 = Some ec" "altRoute s1 = None"
    and in3: "FetchAll reqs \<in> set fx3"
    by blast
  from fetchRoute_legs [OF fetch in3] obtain data r rs fx2 where
    main: "osrm N 0 (lngLat sc) (lngLat ec) = Inr data" "routes data = Some (r # rs)"
    and blocked: "checkRouteForFloods T (map prod.swap (coordinates r)) (floodReports s1) (drawnItems s1) = Inr True"
    and alt: "alternativeRoute T N sc ec (map prod.swap (coordinates r))
                (s1\<lparr>route := Some (map prod.swap (coordinates r)), showWarning := True\<rparr>) = (s', fx2)"
    and fx3: "fx3 = Fetch (Osrm (lngLat sc) (lngLat ec)) # fx2"
    by blast
  let ?s2 = "s1\<lparr>route := Some (map prod.swap (coordinates r)), showWarning := True\<rparr>"
  have in2: "FetchAll reqs \<in> set fx2" using in3 fx3 by simp
  from alternativeRoute_legs [OF alt in2] obtain zone anchor where
    zone: "closestFloodZone T sc (floodReports ?s2) (drawnItems ?s2) = Inr (Some zone)"
    and anchor: "nearestPointOnLine T (routeGeometry (map prod.swap (coordinates r))) zone = Inr anchor"
    and legs: "detourLegs N sc ec anchor ?s2 = (s', fx2)"
    by blast
  from detourLegs_run [OF legs] obtain rest where
    fx2: "fx2 = FetchAll [Osrm (lngLat sc) (bypass anchor), Osrm (bypass anchor) (lngLat ec)] # rest"
    and rest: "\<forall>reqs. FetchAll reqs \<notin> set rest"
    and s': "s' = (if noRoute (osrm N 1 (lngLat sc) (bypass anchor)) \<or>
                     noRoute (osrm N 2 (bypass anchor) (lngLat ec))
               then ?s2
               else ?s2\<lparr>altRoute := Some (map prod.swap
                       (legCoordinates (osrm N 1 (lngLat sc) (bypass anchor)) @
                        legCoordinates (osrm N 2 (bypass anchor) (lngLat ec))))\<rparr>)"
    by blast
  have reqs: "reqs = [Osrm (lngLat sc) (bypass anchor), Osrm (bypass anchor) (lngLat ec)]"
    using in2 fx2 rest by auto
  have fields: "startPoint s' = Some sc" "endPoint s' = Some ec"
    "route s' = Some (map prod.swap (coordinates r))" "showWarning s'"
    using s' s1 by (simp_all split: if_splits)
  have altRoute: "altRoute s' =
               (if noRoute (osrm N 1 (lngLat sc) (bypass anchor)) \<or>
                   noRoute (osrm N 2 (bypass anchor) (lngLat ec))
                then None
                else Some (map prod.swap
                       (legCoordinates (osrm N 1 (lngLat sc) (bypass anchor)) @
                        legCoordinates (osrm N 2 (bypass anchor) (lngLat ec)))))"
    using s' s1 by (simp split: if_splits)
  from geo main blocked zone anchor reqs fields altRoute s1 show ?thesis
    by (intro exI [of _ sc] exI [of _ ec] exI [of _ data] exI [of _ r] exI [of _ rs]
          exI [of _ zone] exI [of _ anchor]) simp
qed

section \<open>Runs of \<open>getRoute\<close> on reports that differ in severity\<close>

lemma checkReports_severity:
  "list_all2 sameButSeverity reports reports' \<Longrightarrow>
   checkReports T routeLine reports' = checkReports T routeLine reports"
  by (induction rule: list_all2_induct) (simp_all add: sameButSeverity_def)

lemma closestReports_severity:
  "list_all2 sameButSeverity reports reports' \<Longrightarrow>
   closestReports T origin reports' acc = closestReports T origin reports acc"
proof (induction arbitrary: acc rule: list_all2_induct)
  case Nil
  then show ?case by simp
next
  case (Cons r reports r' reports')
  obtain z m where acc: "acc = (z, m)" by (cases acc)
  from Cons show ?case unfolding acc by (simp add: sameButSeverity_def Let_def)
qed

lemma detourLegs_reports:
  "detourLegs N sc ec dp (s\<lparr>floodReports := rs\<rparr>) =
     apfst (\<lambda>t. t\<lparr>floodReports := rs\<rparr>) (detourLegs N sc ec dp s)"
  by (simp add: detourLegs_def caught_def Let_def
        split: sum.splits option.splits list.splits)

lemma alternativeRoute_reports:
  assumes "closestFloodZone T sc rs (drawnItems s) =
           closestFloodZone T sc (floodReports s) (drawnItems s)"
  shows "alternativeRoute T N sc ec rc (s\<lparr>floodReports := rs\<rparr>) =
           apfst (\<lambda>t. t\<lparr>floodReports := rs\<rparr>) (alternativeRoute T N sc ec rc s)"
  using assms
  by (simp add: alternativeRoute_def caught_def detourLegs_reports
        split: sum.splits option.splits)

lemma fetchRoute_reports:
  assumes "\<And>rc. checkRouteForFloods T rc rs (drawnItems s) =
                 checkRouteForFloods T rc (floodReports s) (drawnItems s)"
    and "closestFloodZone T sc rs (drawnItems s) =
         closestFloodZone T sc (floodReports s) (drawnItems s)"
  shows "fetchRoute T N sc ec (s\<lparr>floodReports := rs\<rparr>) =
           apfst (\<lambda>t. t\<lparr>floodReports := rs\<rparr>) (fetchRoute T N sc ec s)"
proof -
  have alt: "alternativeRoute T N sc ec rc (s\<lparr>floodReports := rs, route := r, showWarning := True\<rparr>) =
      apfst (\<lambda>t. t\<lparr>floodReports := rs\<rparr>)
        (alternativeRoute T N sc ec rc (s\<lparr>route := r, showWarning := True\<rparr>))" for rc r
  proof -
    have comm: "s\<lparr>floodReports := rs, route := r, showWarning := True\<rparr> =
          s\<lparr>route := r, showWarning := True, floodReports := rs\<rparr>"
      by (cases s) simp
    show ?thesis
      unfolding comm
      using alternativeRoute_reports [of T sc rs "s\<lparr>route := r, showWarning := True\<rparr>" N ec rc]
        assms(2)
      by simp
  qed
  show ?thesis
    by (simp add: fetchRoute_def caught_def Let_def assms(1) alt case_prod_unfold
          split: sum.splits option.splits list.splits bool.splits)
qed

lemma getRoute_reports:
  assumes "\<And>rc. checkRouteForFloods T rc rs (drawnItems s) =
                 checkRouteForFloods T rc (floodReports s) (drawnItems s)"
    and "\<And>sc::latlng. closestFloodZone T sc rs (drawnItems s) =
         closestFloodZone T sc (floodReports s) (drawnItems s)"
  shows "getRoute T N (s\<lparr>floodReports := rs\<rparr>) =
           apfst (\<lambda>t. t\<lparr>floodReports := rs\<rparr>) (getRoute T N s)"
proof -
  have fetch: "fetchRoute T N sc ec
        (s\<lparr>floodReports := rs, route := None, altRoute := None, showWarning := False,
            startPoint := Some sc, endPoint := Some ec\<rparr>) =
      apfst (\<lambda>t. t\<lparr>floodReports := rs\<rparr>)
        (fetchRoute T N sc ec
           (s\<lparr>route := None, altRoute := None, showWarning := False,
               startPoint := Some sc, endPoint := Some ec\<rparr>))" for sc ec
  proof -
    have comm: "s\<lparr>floodReports := rs, route := None, altRoute := None, showWarning := False,
            startPoint := Some sc, endPoint := Some ec\<rparr> =
          s\<lparr>route := None, altRoute := None, showWarning := False,
            startPoint := Some sc, endPoint := Some ec, floodReports := rs\<rparr>"
      by (cases s) simp
    show ?thesis
      unfolding comm
      using fetchRoute_reports [of T rs "s\<lparr>route := None, altRoute := None, showWarning := False,
               startPoint := Some sc, endPoint := Some ec\<rparr>" sc N ec] assms
      by simp
  qed
  show ?thesis
    by (simp add: getRoute_def Let_def fetch case_prod_unfold
          split: option.splits)
qed

section \<open>Evaluating the model on the inputs\<close>

lemmas model_defs =
  getRoute_def fetchRoute_def alternativeRoute_def detourLegs_def caught_def geocodeAddress_def
  closestFloodZone_def checkRouteForFloods_def lineString_def polygon_def point_def below_def
  isArea_def Let_def

lemmas instance_defs =
  vertexTurf_def straightNet_def brokenNet_def geocoder_def straightRoute_def trip_def taxicab_def
  mainRoute_def midReport_def startReport_def cornerRectangle_def farRectangle_def sliver_def
  marker_def

lemma run_straight:
  "getRoute vertexTurf straightNet (trip [midReport] []) =
     (\<lparr>start = ''Gachibowli'', end' = ''Uppal'', route = Some mainRoute,
       altRoute = Some [(17.30, 78.40), (17.33, 78.43), (17.36, 78.46),
                        (17.36, 78.46), (17.38, 78.48), (17.40, 78.50)],
       startPoint = Some \<lparr>lat = 17.30, lng = 78.40\<rparr>,
       endPoint = Some \<lparr>lat = 17.40, lng = 78.50\<rparr>,
       floodReports = [midReport], drawnItems = [], showWarning = True\<rparr>,
      [Fetch (Nominatim ''Gachibowli''), Fetch (Nominatim ''Uppal''),
       Fetch (Osrm (78.40, 17.30) (78.50, 17.40)),
       FetchAll [Osrm (78.40, 17.30) (78.46, 17.36), Osrm (78.46, 17.36) (78.50, 17.40)]])"
  by (simp add: model_defs instance_defs)

lemma run_broken:
  "getRoute vertexTurf brokenNet (trip [midReport] []) =
     (\<lparr>start = ''Gachibowli'', end' = ''Uppal'', route = Some mainRoute,
       altRoute = None,
       startPoint = Some \<lparr>lat = 17.30, lng = 78.40\<rparr>,
       endPoint = Some \<lparr>lat = 17.40, lng = 78.50\<rparr>,
       floodReports = [midReport], drawnItems = [], showWarning = True\<rparr>,
      [Fetch (Nominatim ''Gachibowli''), Fetch (Nominatim ''Uppal''),
       Fetch (Osrm (78.40, 17.30) (78.50, 17.40)),
       FetchAll [Osrm (78.40, 17.30) (78.46, 17.36), Osrm (78.46, 17.36) (78.50, 17.40)],
       ConsoleError ''Error fetching route:'',
       Alert ''An error occurred while getting the route.''])"
  by (simp add: model_defs instance_defs)

lemma run_start:
  "getRoute vertexTurf straightNet (trip [startReport] []) =
     (\<lparr>start = ''Gachibowli'', end' = ''Uppal'', route = Some mainRoute,
       altRoute = Some [(17.30, 78.40), (17.305, 78.405), (17.31, 78.41),
                        (17.31, 78.41), (17.355, 78.455), (17.40, 78.50)],
       startPoint = Some \<lparr>lat = 17.30, lng = 78.40\<rparr>,
       endPoint = Some \<lparr>lat = 17.40, lng = 78.50\<rparr>,
       floodReports = [startReport], drawnItems = [], showWarning = True\<rparr>,
      [Fetch (Nominatim ''Gachibowli''), Fetch (Nominatim ''Uppal''),
       Fetch (Osrm (78.40, 17.30) (78.50, 17.40)),
       FetchAll [Osrm (78.40, 17.30) (78.41, 17.31), Osrm (78.41, 17.31) (78.50, 17.40)]])"
  by (simp add: model_defs instance_defs)

section \<open>The claims\<close>

subsection \<open>C1: what the intersection check returns\<close>

text \<open>
  C1, as amended. For every route of at least two points and every hazard set in which
  each rectangle or polygon has at least one ring, and each of its rings has four
  positions or more and ends where it starts, \<open>checkRouteForFloods\<close> returns true
  exactly when the buffer of some report, or
  the polygon of some rectangle or polygon item, intersects the line through the route;
  with no hazards it returns false; and lists with the same reports and the same drawn
  items, in any order, give the same result.
\<close>

theorem checkRouteForFloods_iff:
  assumes "2 \<le> length routeCoords"
    and "\<forall>item\<in>set drawn. isArea item \<longrightarrow>
           latlngs item \<noteq> [] \<and> list_all validRing (latlngs item)"
  shows "checkRouteForFloods T routeCoords reports drawn =
           Inr ((\<exists>report\<in>set reports.
                   booleanIntersects T (routeGeometry routeCoords) (reportGeometry T report)) \<or>
                (\<exists>item\<in>set drawn. isArea item \<and>
                   booleanIntersects T (routeGeometry routeCoords) (areaGeometry item)))
         \<and> checkRouteForFloods T routeCoords [] [] = Inr False
         \<and> (\<forall>reports' drawn'. set reports' = set reports \<and> set drawn' = set drawn \<longrightarrow>
               checkRouteForFloods T routeCoords reports' drawn' =
               checkRouteForFloods T routeCoords reports drawn)"
proof -
  have line: "lineString (map prod.swap routeCoords) = Inr (routeGeometry routeCoords)"
    using assms(1) by (simp add: lineString_def routeGeometry_def)
  have closed: "checkRouteForFloods T routeCoords rs ds =
      Inr ((\<exists>report\<in>set rs.
              booleanIntersects T (routeGeometry routeCoords) (reportGeometry T report)) \<or>
           (\<exists>item\<in>set ds. isArea item \<and>
              booleanIntersects T (routeGeometry routeCoords) (areaGeometry item)))"
    if "\<forall>item\<in>set ds. isArea item \<longrightarrow>
          latlngs item \<noteq> [] \<and> list_all validRing (latlngs item)" for rs ds
    using that by (simp add: checkRouteForFloods_def line checkReports_iff checkDrawn_valid)
  have first: "checkRouteForFloods T routeCoords reports drawn =
      Inr ((\<exists>report\<in>set reports.
              booleanIntersects T (routeGeometry routeCoords) (reportGeometry T report)) \<or>
           (\<exists>item\<in>set drawn. isArea item \<and>
              booleanIntersects T (routeGeometry routeCoords) (areaGeometry item)))"
    using assms(2) by (rule closed)
  have second: "checkRouteForFloods T routeCoords [] [] = Inr False"
    using closed [of "[]" "[]"] by simp
  have third: "checkRouteForFloods T routeCoords reports' drawn' =
               checkRouteForFloods T routeCoords reports drawn"
    if "set reports' = set reports" and "set drawn' = set drawn" for reports' drawn'
  proof -
    have "\<forall>item\<in>set drawn'. isArea item \<longrightarrow>
            latlngs item \<noteq> [] \<and> list_all validRing (latlngs item)"
      using assms(2) that(2) by simp
    then show ?thesis
      using closed [of drawn' reports'] first that by simp
  qed
  from first second third show ?thesis by blast
qed

text \<open>
  The theorem at the route of the inputs, with a report on the route and one rectangle
  touching it, tested in both orders.
\<close>

theorem checkRouteForFloods_iff_witness:
  "2 \<le> length mainRoute
   \<and> latlngs farRectangle \<noteq> [] \<and> list_all validRing (latlngs farRectangle)
   \<and> latlngs cornerRectangle \<noteq> [] \<and> list_all validRing (latlngs cornerRectangle)
   \<and> checkRouteForFloods vertexTurf mainRoute [startReport, midReport]
        [farRectangle, cornerRectangle] = Inr True
   \<and> checkRouteForFloods vertexTurf mainRoute [] [] = Inr False
   \<and> checkRouteForFloods vertexTurf mainRoute [midReport, startReport]
        [cornerRectangle, farRectangle] = Inr True"
proof -
  have two: "2 \<le> length mainRoute"
    by (simp add: mainRoute_def)
  have rings: "latlngs farRectangle \<noteq> []" "list_all validRing (latlngs farRectangle)"
    "latlngs cornerRectangle \<noteq> []" "list_all validRing (latlngs cornerRectangle)"
    by (simp_all add: validRing_def farRectangle_def cornerRectangle_def)
  then have valid: "\<forall>item\<in>set [farRectangle, cornerRectangle].
      isArea item \<longrightarrow> latlngs item \<noteq> [] \<and> list_all validRing (latlngs item)"
    by simp
  note iff = checkRouteForFloods_iff [OF two valid, of vertexTurf "[startReport, midReport]"]
  have hit: "booleanIntersects vertexTurf (routeGeometry mainRoute)
               (reportGeometry vertexTurf midReport)"
    by (simp add: routeGeometry_def reportGeometry_def instance_defs)
  have one: "checkRouteForFloods vertexTurf mainRoute [startReport, midReport]
        [farRectangle, cornerRectangle] = Inr True"
    using iff [THEN conjunct1] hit by simp
  have none: "checkRouteForFloods vertexTurf mainRoute [] [] = Inr False"
    using iff [THEN conjunct2, THEN conjunct1] .
  have "set [midReport, startReport] = set [startReport, midReport]
      \<and> set [cornerRectangle, farRectangle] = set [farRectangle, cornerRectangle]"
    by auto
  with iff [THEN conjunct2, THEN conjunct2, rule_format,
      of "[midReport, startReport]" "[cornerRectangle, farRectangle]"]
  have "checkRouteForFloods vertexTurf mainRoute [midReport, startReport]
        [cornerRectangle, farRectangle] =
      checkRouteForFloods vertexTurf mainRoute [startReport, midReport]
        [farRectangle, cornerRectangle]"
    by blast
  with one have other: "checkRouteForFloods vertexTurf mainRoute [midReport, startReport]
        [cornerRectangle, farRectangle] = Inr True"
    by simp
  from two rings one none other show ?thesis by blast
qed

text \<open>
  C1 as stated fails: on a hazard set holding one polygon whose ring has two positions,
  the check returns neither true nor false; the polygon constructor throws.
\<close>

theorem checkRouteForFloods_iff_counterexample:
  "checkRouteForFloods vertexTurf mainRoute [] [sliver] =
     Inl (Error ''Each LinearRing of a Polygon must have 4 or more Positions.'')"
  by (simp add: model_defs instance_defs)

subsection \<open>C2: a degenerate area\<close>

text \<open>
  C2, as amended. A rectangle or polygon item with a ring of fewer than three points is
  not skipped. With such an item in the drawn list, every rectangle or polygon before it
  being well formed (at least one ring, each ring of four positions or more and ending
  where it starts), the check returns true when a report, or an area tested before the
  degenerate one, intersects the route; otherwise it throws at the degenerate item,
  whatever comes after it.
\<close>

theorem checkRouteForFloods_degenerate:
  assumes "2 \<le> length routeCoords"
    and "isArea bad" and "ring \<in> set (latlngs bad)" and "length ring < 3"
    and "\<forall>item\<in>set pre. isArea item \<longrightarrow>
           latlngs item \<noteq> [] \<and> list_all validRing (latlngs item)"
  shows "\<exists>e. checkRouteForFloods T routeCoords reports (pre @ bad # post) =
           (if (\<exists>report\<in>set reports.
                  booleanIntersects T (routeGeometry routeCoords) (reportGeometry T report)) \<or>
               (\<exists>item\<in>set pre. isArea item \<and>
                  booleanIntersects T (routeGeometry routeCoords) (areaGeometry item))
            then Inr True else Inl e)"
proof -
  have line: "lineString (map prod.swap routeCoords) = Inr (routeGeometry routeCoords)"
    using assms(1) by (simp add: lineString_def routeGeometry_def)
  from assms(4) have "length ring < 4" by simp
  with polygon_short [OF assms(3)] obtain e where
    e: "polygon (map (map prod.swap) (latlngs bad)) = Inl e"
    by blast
  have "checkDrawn T (routeGeometry routeCoords) (bad # post) = Inl e"
    using assms(2) e by simp
  then show ?thesis
    by (intro exI [of _ e])
      (simp add: checkRouteForFloods_def line checkReports_iff checkDrawn_append [OF assms(5)])
qed

text \<open>
  The theorem with a well-formed rectangle before the degenerate polygon and one that
  touches the route after it: the check throws.
\<close>

theorem checkRouteForFloods_degenerate_witness:
  "2 \<le> length mainRoute \<and> isArea sliver
   \<and> [(17.34, 78.44), (17.36, 78.46)] \<in> set (latlngs sliver)
   \<and> length [(17.34 :: real, 78.44 :: real), (17.36, 78.46)] < 3
   \<and> isArea farRectangle
   \<and> latlngs farRectangle \<noteq> [] \<and> list_all validRing (latlngs farRectangle)
   \<and> (\<exists>e. checkRouteForFloods vertexTurf mainRoute []
              ([farRectangle] @ sliver # [cornerRectangle]) = Inl e)"
proof -
  have two: "2 \<le> length mainRoute"
    by (simp add: mainRoute_def)
  have area: "isArea sliver" "isArea farRectangle"
    by (simp_all add: isArea_def sliver_def farRectangle_def)
  have ring: "[(17.34, 78.44), (17.36, 78.46)] \<in> set (latlngs sliver)"
    by (simp add: sliver_def)
  have short: "length [(17.34 :: real, 78.44 :: real), (17.36, 78.46)] < 3"
    by simp
  have rings: "latlngs farRectangle \<noteq> []" "list_all validRing (latlngs farRectangle)"
    by (simp_all add: validRing_def farRectangle_def)
  then have valid: "\<forall>item\<in>set [farRectangle]. isArea item \<longrightarrow>
      latlngs item \<noteq> [] \<and> list_all validRing (latlngs item)"
    by simp
  have miss: "\<not> booleanIntersects vertexTurf (routeGeometry mainRoute) (areaGeometry farRectangle)"
    by (simp add: routeGeometry_def areaGeometry_def instance_defs)
  from checkRouteForFloods_degenerate [OF two area(1) ring short valid,
      of vertexTurf "[]" "[cornerRectangle]"] miss
  have "\<exists>e. checkRouteForFloods vertexTurf mainRoute []
              ([farRectangle] @ sliver # [cornerRectangle]) = Inl e"
    by simp
  with two area ring short rings show ?thesis by simp
qed

text \<open>
  C2 as stated fails: the rectangle alone makes the check return true, but with the
  degenerate polygon before it the check throws instead of skipping.
\<close>

theorem checkRouteForFloods_degenerate_counterexample:
  "checkRouteForFloods vertexTurf mainRoute [] [cornerRectangle] = Inr True
   \<and> checkRouteForFloods vertexTurf mainRoute [] [sliver, cornerRectangle] =
       Inl (Error ''Each LinearRing of a Polygon must have 4 or more Positions.'')"
  by (simp add: model_defs instance_defs)

subsection \<open>C3: a detour leg that fails or finds no route\<close>

text \<open>
  C3. In every run of \<open>getRoute\<close>, once the two detour legs are requested, if either
  request fails or returns no candidate route then no alternate route is set and the
  warning stays on; and an alternate route is set only in a run that requested the two
  legs and got at least one candidate route from each.
\<close>

theorem detour_leg_failure:
  assumes "getRoute T N s = (s', fx)"
  shows "(\<forall>a w w' b.
            FetchAll [Osrm a w, Osrm w' b] \<in> set fx \<and>
            (noRoute (osrm N 1 a w) \<or> noRoute (osrm N 2 w' b)) \<longrightarrow>
            altRoute s' = None \<and> showWarning s')
       \<and> (altRoute s' \<noteq> None \<longrightarrow>
            (\<exists>a w b. FetchAll [Osrm a w, Osrm w b] \<in> set fx \<and>
               \<not> noRoute (osrm N 1 a w) \<and> \<not> noRoute (osrm N 2 w b)))"
proof -
  have failing: "altRoute s' = None \<and> showWarning s'"
    if "FetchAll [Osrm a w, Osrm w' b] \<in> set fx"
      and "noRoute (osrm N 1 a w) \<or> noRoute (osrm N 2 w' b)" for a w w' b
    using getRoute_legs [OF assms that(1)] that(2) by auto
  have produced: "\<exists>a w b. FetchAll [Osrm a w, Osrm w b] \<in> set fx \<and>
          \<not> noRoute (osrm N 1 a w) \<and> \<not> noRoute (osrm N 2 w b)"
    if some: "altRoute s' \<noteq> None"
  proof -
    have "\<exists>reqs. FetchAll reqs \<in> set fx"
    proof (rule ccontr)
      assume "\<nexists>reqs. FetchAll reqs \<in> set fx"
      then have "\<forall>reqs. FetchAll reqs \<notin> set fx" by simp
      from getRoute_quiet [OF assms this] some show False by simp
    qed
    then obtain reqs where reqs: "FetchAll reqs \<in> set fx" ..
    from getRoute_legs [OF assms reqs] obtain sc ec anchor where
      legs: "reqs = [Osrm (lngLat sc) (bypass anchor), Osrm (bypass anchor) (lngLat ec)]"
      and alt: "altRoute s' =
               (if noRoute (osrm N 1 (lngLat sc) (bypass anchor)) \<or>
                   noRoute (osrm N 2 (bypass anchor) (lngLat ec))
                then None
                else Some (map prod.swap
                       (legCoordinates (osrm N 1 (lngLat sc) (bypass anchor)) @
                        legCoordinates (osrm N 2 (bypass anchor) (lngLat ec)))))"
      by blast
    from alt some have "\<not> noRoute (osrm N 1 (lngLat sc) (bypass anchor))"
      "\<not> noRoute (osrm N 2 (bypass anchor) (lngLat ec))"
      by (auto split: if_splits)
    with reqs legs show ?thesis by blast
  qed
  from failing produced show ?thesis by blast
qed

text \<open>
  The theorem on the network whose second detour leg fails: the legs are requested,
  there is no alternate route, and the warning is on.
\<close>

theorem detour_leg_failure_witness:
  "FetchAll [Osrm (78.40, 17.30) (78.46, 17.36), Osrm (78.46, 17.36) (78.50, 17.40)]
     \<in> set (snd (getRoute vertexTurf brokenNet (trip [midReport] [])))
   \<and> noRoute (osrm brokenNet 2 (78.46, 17.36) (78.50, 17.40))
   \<and> altRoute (fst (getRoute vertexTurf brokenNet (trip [midReport] []))) = None
   \<and> showWarning (fst (getRoute vertexTurf brokenNet (trip [midReport] [])))"
proof -
  let ?run = "getRoute vertexTurf brokenNet (trip [midReport] [])"
  have run: "?run = (fst ?run, snd ?run)"
    by simp
  have legs: "FetchAll [Osrm (78.40, 17.30) (78.46, 17.36), Osrm (78.46, 17.36) (78.50, 17.40)]
     \<in> set (snd ?run)"
    by (simp add: run_broken)
  have failed: "noRoute (osrm brokenNet 2 (78.46, 17.36) (78.50, 17.40))"
    by (simp add: noRoute_def brokenNet_def)
  from detour_leg_failure [OF run, THEN conjunct1, rule_format,
      of "(78.40, 17.30)" "(78.46, 17.36)" "(78.46, 17.36)" "(78.50, 17.40)"] legs failed
  have "altRoute (fst ?run) = None \<and> showWarning (fst ?run)"
    by blast
  with legs failed show ?thesis by blast
qed

subsection \<open>C5: the bypass waypoint\<close>

text \<open>
  C5. Whenever a run of \<open>getRoute\<close> requests the two detour legs, the route was found
  blocked, a nearest flood zone was selected, and both legs go through one waypoint: the
  point of the route line nearest to the selected zone, with 0.01 added to each of its
  two coordinates. The first leg starts at the origin, the second ends at the
  destination.
\<close>

theorem bypass_waypoint:
  assumes "getRoute T N s = (s', fx)"
    and "FetchAll [Osrm a w, Osrm w' b] \<in> set fx"
  shows "\<exists>sc ec rc zone anchor.
           startPoint s' = Some sc \<and> endPoint s' = Some ec \<and> route s' = Some rc
           \<and> checkRouteForFloods T rc (floodReports s) (drawnItems s) = Inr True
           \<and> closestFloodZone T sc (floodReports s) (drawnItems s) = Inr (Some zone)
           \<and> nearestPointOnLine T (routeGeometry rc) zone = Inr anchor
           \<and> w = (fst anchor + 0.01, snd anchor + 0.01) \<and> w' = w
           \<and> a = (lng sc, lat sc) \<and> b = (lng ec, lat ec)"
proof -
  from getRoute_legs [OF assms] obtain sc ec and r :: osrm_route and zone anchor where
    "startPoint s' = Some sc" "endPoint s' = Some ec"
    "route s' = Some (map prod.swap (coordinates r))"
    "checkRouteForFloods T (map prod.swap (coordinates r)) (floodReports s) (drawnItems s) = Inr True"
    "closestFloodZone T sc (floodReports s) (drawnItems s) = Inr (Some zone)"
    "nearestPointOnLine T (routeGeometry (map prod.swap (coordinates r))) zone = Inr anchor"
    "[Osrm a w, Osrm w' b] = [Osrm (lngLat sc) (bypass anchor), Osrm (bypass anchor) (lngLat ec)]"
    by blast
  then show ?thesis
    by (intro exI [of _ sc] exI [of _ ec] exI [of _ "map prod.swap (coordinates r)"]
          exI [of _ zone] exI [of _ anchor])
       (simp add: bypass_def lngLat_def)
qed

text \<open>
  The theorem on the run with a report on the middle of the route: the anchor is the
  middle position \<open>(78.45, 17.35)\<close>, the waypoint \<open>(78.46, 17.36)\<close>.
\<close>

theorem bypass_waypoint_witness:
  "FetchAll [Osrm (78.40, 17.30) (78.46, 17.36), Osrm (78.46, 17.36) (78.50, 17.40)]
     \<in> set (snd (getRoute vertexTurf straightNet (trip [midReport] [])))
   \<and> nearestPointOnLine vertexTurf (routeGeometry mainRoute) (Feature (Point (78.45, 17.35))) =
       Inr (78.45, 17.35)
   \<and> (\<exists>zone anchor.
         closestFloodZone vertexTurf \<lparr>lat = 17.30, lng = 78.40\<rparr> [midReport] [] = Inr (Some zone)
         \<and> nearestPointOnLine vertexTurf (routeGeometry mainRoute) zone = Inr anchor
         \<and> (78.46, 17.36) = (fst anchor + 0.01, snd anchor + 0.01))"
proof -
  let ?run = "getRoute vertexTurf straightNet (trip [midReport] [])"
  have run: "?run = (fst ?run, snd ?run)"
    by simp
  have legs: "FetchAll [Osrm (78.40, 17.30) (78.46, 17.36), Osrm (78.46, 17.36) (78.50, 17.40)]
     \<in> set (snd ?run)"
    by (simp add: run_straight)
  have nearest: "nearestPointOnLine vertexTurf (routeGeometry mainRoute)
      (Feature (Point (78.45, 17.35))) = Inr (78.45, 17.35)"
    by (simp add: routeGeometry_def instance_defs)
  from bypass_waypoint [OF run legs] obtain sc ec rc zone anchor where
    "startPoint (fst ?run) = Some sc" "route (fst ?run) = Some rc"
    "closestFloodZone vertexTurf sc (floodReports (trip [midReport] []))
       (drawnItems (trip [midReport] [])) = Inr (Some zone)"
    "nearestPointOnLine vertexTurf (routeGeometry rc) zone = Inr anchor"
    "(78.46, 17.36) = (fst anchor + 0.01, snd anchor + 0.01)"
    by blast
  moreover have "startPoint (fst ?run) = Some \<lparr>lat = 17.30, lng = 78.40\<rparr>"
    "route (fst ?run) = Some mainRoute"
    by (simp_all add: run_straight)
  moreover have "floodReports (trip [midReport] []) = [midReport]"
    "drawnItems (trip [midReport] []) = []"
    by (simp_all add: trip_def)
  ultimately have "closestFloodZone vertexTurf \<lparr>lat = 17.30, lng = 78.40\<rparr> [midReport] [] = Inr (Some zone)
         \<and> nearestPointOnLine vertexTurf (routeGeometry mainRoute) zone = Inr anchor
         \<and> (78.46, 17.36) = (fst anchor + 0.01, snd anchor + 0.01)"
    by simp
  with legs nearest show ?thesis by blast
qed

subsection \<open>C6: the merged alternate route\<close>

text \<open>
  C6. Whenever the two detour legs are requested and each answer holds at least one
  candidate route, the alternate route is the coordinates of the first candidate of leg
  A followed by those of the first candidate of leg B, each swapped into display order;
  its length is the sum of the two lengths.
\<close>

theorem merged_alternate_route:
  assumes "getRoute T N s = (s', fx)"
    and "FetchAll [Osrm a w, Osrm w' b] \<in> set fx"
    and "osrm N 1 a w = Inr data1" and "routes data1 = Some (r1 # rs1)"
    and "osrm N 2 w' b = Inr data2" and "routes data2 = Some (r2 # rs2)"
  shows "altRoute s' = Some (map prod.swap (coordinates r1 @ coordinates r2))
       \<and> (\<exists>merged. altRoute s' = Some merged \<and>
            length merged = length (coordinates r1) + length (coordinates r2))"
proof -
  have legs: "\<not> noRoute (osrm N 1 a w)" "\<not> noRoute (osrm N 2 w' b)"
    "legCoordinates (osrm N 1 a w) = coordinates r1"
    "legCoordinates (osrm N 2 w' b) = coordinates r2"
    using assms(3-6) by (simp_all add: noRoute_def legCoordinates_def)
  from getRoute_legs [OF assms(1,2)] legs
  have "altRoute s' = Some (map prod.swap (coordinates r1 @ coordinates r2))"
    by auto
  then show ?thesis by simp
qed

text \<open>
  The theorem on the run with a report on the middle of the route: two legs of three
  positions each give an alternate route of six.
\<close>

theorem merged_alternate_route_witness:
  "FetchAll [Osrm (78.40, 17.30) (78.46, 17.36), Osrm (78.46, 17.36) (78.50, 17.40)]
     \<in> set (snd (getRoute vertexTurf straightNet (trip [midReport] [])))
   \<and> osrm straightNet 1 (78.40, 17.30) (78.46, 17.36) = Inr (straightRoute (78.40, 17.30) (78.46, 17.36))
   \<and> osrm straightNet 2 (78.46, 17.36) (78.50, 17.40) = Inr (straightRoute (78.46, 17.36) (78.50, 17.40))
   \<and> altRoute (fst (getRoute vertexTurf straightNet (trip [midReport] []))) =
       Some [(17.30, 78.40), (17.33, 78.43), (17.36, 78.46),
             (17.36, 78.46), (17.38, 78.48), (17.40, 78.50)]
   \<and> (\<exists>merged. altRoute (fst (getRoute vertexTurf straightNet (trip [midReport] []))) = Some merged
         \<and> length merged = 3 + 3)"
proof -
  let ?run = "getRoute vertexTurf straightNet (trip [midReport] [])"
  let ?legA = "\<lparr>coordinates = [(78.40, 17.30), (78.43, 17.33), (78.46 :: real, 17.36 :: real)]\<rparr>"
  let ?legB = "\<lparr>coordinates = [(78.46, 17.36), (78.48, 17.38), (78.50 :: real, 17.40 :: real)]\<rparr>"
  have run: "?run = (fst ?run, snd ?run)"
    by simp
  have legs: "FetchAll [Osrm (78.40, 17.30) (78.46, 17.36), Osrm (78.46, 17.36) (78.50, 17.40)]
     \<in> set (snd ?run)"
    by (simp add: run_straight)
  have answers:
    "osrm straightNet 1 (78.40, 17.30) (78.46, 17.36) = Inr (straightRoute (78.40, 17.30) (78.46, 17.36))"
    "osrm straightNet 2 (78.46, 17.36) (78.50, 17.40) = Inr (straightRoute (78.46, 17.36) (78.50, 17.40))"
    by (simp_all add: straightNet_def)
  have candidates:
    "routes (straightRoute (78.40, 17.30) (78.46, 17.36)) = Some (?legA # [])"
    "routes (straightRoute (78.46, 17.36) (78.50, 17.40)) = Some (?legB # [])"
    by (simp_all add: straightRoute_def)
  from merged_alternate_route [OF run legs answers(1) candidates(1) answers(2) candidates(2)]
  have "altRoute (fst ?run) =
       Some [(17.30, 78.40), (17.33, 78.43), (17.36, 78.46),
             (17.36, 78.46), (17.38, 78.48), (17.40, 78.50)]
     \<and> (\<exists>merged. altRoute (fst ?run) = Some merged \<and> length merged = 3 + 3)"
    by simp
  with legs answers show ?thesis by blast
qed

subsection \<open>C10: the alternate route is not checked against the hazards\<close>

text \<open>
  C10. Whenever the two detour legs are requested and each answer holds at least one
  candidate route, the merged route is set as the alternate route as it is, also when
  the intersection check is true of the merged route on the same reports and drawn items.
\<close>

theorem alternate_route_not_revalidated:
  assumes "getRoute T N s = (s', fx)"
    and "FetchAll [Osrm a w, Osrm w' b] \<in> set fx"
    and "\<not> noRoute (osrm N 1 a w)" and "\<not> noRoute (osrm N 2 w' b)"
    and "merged = map prod.swap (legCoordinates (osrm N 1 a w) @ legCoordinates (osrm N 2 w' b))"
    and "checkRouteForFloods T merged (floodReports s) (drawnItems s) = Inr True"
  shows "altRoute s' = Some merged \<and> showWarning s'"
  using getRoute_legs [OF assms(1,2)] assms(3-5) by auto

text \<open>
  The theorem on the run with a report on the first position of the route: the alternate
  route starts at that position, so the check is true of it, and it is set all the same.
\<close>

theorem alternate_route_not_revalidated_witness:
  "FetchAll [Osrm (78.40, 17.30) (78.41, 17.31), Osrm (78.41, 17.31) (78.50, 17.40)]
     \<in> set (snd (getRoute vertexTurf straightNet (trip [startReport] [])))
   \<and> \<not> noRoute (osrm straightNet 1 (78.40, 17.30) (78.41, 17.31))
   \<and> \<not> noRoute (osrm straightNet 2 (78.41, 17.31) (78.50, 17.40))
   \<and> checkRouteForFloods vertexTurf
        [(17.30, 78.40), (17.305, 78.405), (17.31, 78.41),
         (17.31, 78.41), (17.355, 78.455), (17.40, 78.50)] [startReport] [] = Inr True
   \<and> altRoute (fst (getRoute vertexTurf straightNet (trip [startReport] []))) =
        Some [(17.30, 78.40), (17.305, 78.405), (17.31, 78.41),
              (17.31, 78.41), (17.355, 78.455), (17.40, 78.50)]
   \<and> showWarning (fst (getRoute vertexTurf straightNet (trip [startReport] [])))"
proof -
  let ?run = "getRoute vertexTurf straightNet (trip [startReport] [])"
  let ?merged = "[(17.30, 78.40), (17.305, 78.405), (17.31, 78.41),
                  (17.31, 78.41), (17.355, 78.455), (17.40 :: real, 78.50 :: real)]"
  have run: "?run = (fst ?run, snd ?run)"
    by simp
  have legs: "FetchAll [Osrm (78.40, 17.30) (78.41, 17.31), Osrm (78.41, 17.31) (78.50, 17.40)]
     \<in> set (snd ?run)"
    by (simp add: run_start)
  have found: "\<not> noRoute (osrm straightNet 1 (78.40, 17.30) (78.41, 17.31))"
    "\<not> noRoute (osrm straightNet 2 (78.41, 17.31) (78.50, 17.40))"
    by (simp_all add: noRoute_def straightNet_def straightRoute_def)
  have merged: "?merged = map prod.swap
      (legCoordinates (osrm straightNet 1 (78.40, 17.30) (78.41, 17.31)) @
       legCoordinates (osrm straightNet 2 (78.41, 17.31) (78.50, 17.40)))"
    by (simp add: legCoordinates_def straightNet_def straightRoute_def)
  have blocked: "checkRouteForFloods vertexTurf ?merged [startReport] [] = Inr True"
    by (simp add: model_defs instance_defs)
  then have blocked': "checkRouteForFloods vertexTurf ?merged
      (floodReports (trip [startReport] [])) (drawnItems (trip [startReport] [])) = Inr True"
    by (simp add: trip_def)
  from alternate_route_not_revalidated [OF run legs found merged blocked']
  have "altRoute (fst ?run) = Some ?merged \<and> showWarning (fst ?run)" .
  with legs found blocked show ?thesis by blast
qed

subsection \<open>C4: the nearest hazard\<close>

text \<open>
  C4, as amended. For every hazard set in which each rectangle or polygon item has at
  least one ring and only rings of four positions or more that end where they start:
  with no report and no rectangle or polygon, nothing is selected and no detour leg is
  requested; otherwise the selected geometry is that of the first candidate of the
  smallest distance from the origin, reports first and then drawn areas in list order,
  the distance taken to the point of a report and to the outer ring, as a line, of an
  area: every candidate before the selected one is strictly farther, none after it is
  nearer. In particular a single report strictly nearer than every area is selected.
\<close>

theorem closestFloodZone_first_nearest:
  fixes startCoords :: latlng
  assumes "\<forall>item\<in>set drawn. isArea item \<longrightarrow>
             latlngs item \<noteq> [] \<and> list_all validRing (latlngs item)"
  shows "(reports = [] \<and> filter isArea drawn = [] \<longrightarrow>
            closestFloodZone T startCoords reports drawn = Inr None \<and>
            alternativeRoute T N startCoords endCoords routeCoordinates
              (s\<lparr>floodReports := reports, drawnItems := drawn\<rparr>) =
              (s\<lparr>floodReports := reports, drawnItems := drawn\<rparr>, []))
       \<and> (reports \<noteq> [] \<or> filter isArea drawn \<noteq> [] \<longrightarrow>
            (\<exists>pre d zone post.
               candidates T (Point (lng startCoords, lat startCoords)) reports drawn =
                 pre @ (d, zone) # post
               \<and> closestFloodZone T startCoords reports drawn = Inr (Some zone)
               \<and> (\<forall>c\<in>set pre. d < fst c) \<and> (\<forall>c\<in>set post. d \<le> fst c)))
       \<and> (\<forall>report. reports = [report] \<and>
            (\<forall>item\<in>set drawn. isArea item \<longrightarrow>
               fst (reportCandidate T (Point (lng startCoords, lat startCoords)) report) <
               fst (areaCandidate T (Point (lng startCoords, lat startCoords)) item)) \<longrightarrow>
            closestFloodZone T startCoords reports drawn =
              Inr (Some (Feature (Point (lng report, lat report)))))"
proof -
  let ?origin = "Point (lng startCoords, lat startCoords)"
  let ?cs = "candidates T ?origin reports drawn"
  note closest = closestFloodZone_foldl [OF assms, of T startCoords reports]
  have empty: "closestFloodZone T startCoords reports drawn = Inr None \<and>
            alternativeRoute T N startCoords endCoords routeCoordinates
              (s\<lparr>floodReports := reports, drawnItems := drawn\<rparr>) =
              (s\<lparr>floodReports := reports, drawnItems := drawn\<rparr>, [])"
    if "reports = [] \<and> filter isArea drawn = []"
  proof -
    from that have "?cs = []" by (simp add: candidates_def)
    with closest have "closestFloodZone T startCoords reports drawn = Inr None" by simp
    then show ?thesis by (simp add: alternativeRoute_def)
  qed
  have selected: "\<exists>pre d zone post. ?cs = pre @ (d, zone) # post
               \<and> closestFloodZone T startCoords reports drawn = Inr (Some zone)
               \<and> (\<forall>c\<in>set pre. d < fst c) \<and> (\<forall>c\<in>set post. d \<le> fst c)"
    if "reports \<noteq> [] \<or> filter isArea drawn \<noteq> []"
  proof -
    from that have "?cs \<noteq> []" by (auto simp: candidates_def)
    from foldl_nearer_first_min [OF this] obtain pre d zone post where
      "?cs = pre @ (d, zone) # post" "foldl nearer (None, None) ?cs = (Some zone, Some d)"
      "\<forall>c\<in>set pre. d < fst c" "\<forall>c\<in>set post. d \<le> fst c"
      by blast
    with closest show ?thesis by auto
  qed
  have single: "closestFloodZone T startCoords reports drawn =
              Inr (Some (Feature (Point (lng report, lat report))))"
    if one: "reports = [report]"
      and nearer: "\<forall>item\<in>set drawn. isArea item \<longrightarrow>
               fst (reportCandidate T ?origin report) < fst (areaCandidate T ?origin item)"
    for report
  proof -
    have cs: "?cs = reportCandidate T ?origin report #
                map (areaCandidate T ?origin) (filter isArea drawn)"
      using one by (simp add: candidates_def)
    from selected one obtain pre d zone post where
      split: "?cs = pre @ (d, zone) # post"
      and zone: "closestFloodZone T startCoords reports drawn = Inr (Some zone)"
      and before: "\<forall>c\<in>set pre. d < fst c"
      by blast
    show ?thesis
    proof (cases pre)
      case Nil
      with split cs have "(d, zone) = reportCandidate T ?origin report" by simp
      then have "zone = Feature (Point (lng report, lat report))"
        by (simp add: reportCandidate_def)
      with zone show ?thesis by simp
    next
      case (Cons c pre')
      with split cs have c: "c = reportCandidate T ?origin report"
        and rest: "map (areaCandidate T ?origin) (filter isArea drawn) = pre' @ (d, zone) # post"
        by simp_all
      from rest have "(d, zone) \<in> set (map (areaCandidate T ?origin) (filter isArea drawn))"
        by simp
      then obtain item where "item \<in> set drawn" "isArea item"
        "(d, zone) = areaCandidate T ?origin item"
        by auto
      with nearer have "fst (reportCandidate T ?origin report) < d"
        by (metis fst_conv)
      moreover from before Cons c have "d < fst (reportCandidate T ?origin report)"
        by simp
      ultimately show ?thesis by simp
    qed
  qed
  from empty selected single show ?thesis by blast
qed

text \<open>
  The theorem at the origin of the inputs, with the report on the middle of the route,
  a rectangle far away and a marker: the report is selected.
\<close>

theorem closestFloodZone_first_nearest_witness:
  "isArea farRectangle \<and> \<not> isArea marker
   \<and> latlngs farRectangle \<noteq> [] \<and> list_all validRing (latlngs farRectangle)
   \<and> fst (reportCandidate vertexTurf (Point (78.40, 17.30)) midReport) <
       fst (areaCandidate vertexTurf (Point (78.40, 17.30)) farRectangle)
   \<and> closestFloodZone vertexTurf \<lparr>lat = 17.30, lng = 78.40\<rparr> [midReport] [farRectangle, marker] =
       Inr (Some (Feature (Point (78.45, 17.35))))"
proof -
  have kinds: "isArea farRectangle" "\<not> isArea marker"
    by (simp_all add: isArea_def farRectangle_def marker_def)
  have rings: "latlngs farRectangle \<noteq> []" "list_all validRing (latlngs farRectangle)"
    by (simp_all add: validRing_def farRectangle_def)
  with kinds have valid: "\<forall>item\<in>set [farRectangle, marker]. isArea item \<longrightarrow>
      latlngs item \<noteq> [] \<and> list_all validRing (latlngs item)"
    by simp
  have nearer: "fst (reportCandidate vertexTurf (Point (78.40, 17.30)) midReport) <
       fst (areaCandidate vertexTurf (Point (78.40, 17.30)) farRectangle)"
    by (simp add: reportCandidate_def areaCandidate_def instance_defs)
  with kinds have all: "\<forall>item\<in>set [farRectangle, marker]. isArea item \<longrightarrow>
      fst (reportCandidate vertexTurf (Point (lng \<lparr>lat = 17.30, lng = 78.40\<rparr>,
             lat \<lparr>lat = 17.30, lng = 78.40\<rparr>)) midReport) <
      fst (areaCandidate vertexTurf (Point (lng \<lparr>lat = 17.30, lng = 78.40\<rparr>,
             lat \<lparr>lat = 17.30, lng = 78.40\<rparr>)) item)"
    by simp
  from closestFloodZone_first_nearest [OF valid, THEN conjunct2, THEN conjunct2, rule_format,
      of "[midReport]" midReport vertexTurf "\<lparr>lat = 17.30, lng = 78.40\<rparr>"] all
  have "closestFloodZone vertexTurf \<lparr>lat = 17.30, lng = 78.40\<rparr> [midReport] [farRectangle, marker] =
       Inr (Some (Feature (Point (lng midReport, lat midReport))))"
    by blast
  then have "closestFloodZone vertexTurf \<lparr>lat = 17.30, lng = 78.40\<rparr> [midReport] [farRectangle, marker] =
       Inr (Some (Feature (Point (78.45, 17.35))))"
    by (simp add: midReport_def)
  with kinds rings nearer show ?thesis by blast
qed

text \<open>
  C4 as stated fails: with the report on the route and a polygon whose ring has two
  positions, the route is found blocked, and the selection throws instead of selecting
  a hazard.
\<close>

theorem closestFloodZone_first_nearest_counterexample:
  "checkRouteForFloods vertexTurf mainRoute [midReport] [sliver] = Inr True
   \<and> closestFloodZone vertexTurf \<lparr>lat = 17.30, lng = 78.40\<rparr> [midReport] [sliver] =
       Inl (Error ''Each LinearRing of a Polygon must have 4 or more Positions.'')"
  by (simp add: model_defs instance_defs)

subsection \<open>C8: severity\<close>

text \<open>
  C8. If two lists of reports differ only in the severity of their reports, then the
  intersection check returns the same on both, the same nearest flood zone is selected,
  and the whole run of \<open>getRoute\<close> is the same: the same requests, so the same bypass
  waypoint, and the same final state but for the reports it holds.
\<close>

theorem severity_noninterference:
  fixes startCoords :: latlng
  assumes "list_all2 sameButSeverity reports reports'"
  shows "checkRouteForFloods T routeCoords reports' drawn =
           checkRouteForFloods T routeCoords reports drawn
       \<and> closestFloodZone T startCoords reports' drawn =
           closestFloodZone T startCoords reports drawn
       \<and> getRoute T N (s\<lparr>floodReports := reports'\<rparr>) =
           apfst (\<lambda>t. t\<lparr>floodReports := reports'\<rparr>) (getRoute T N (s\<lparr>floodReports := reports\<rparr>))"
proof -
  have check: "checkRouteForFloods T rc reports' ds = checkRouteForFloods T rc reports ds"
    for rc ds
    by (simp add: checkRouteForFloods_def checkReports_severity [OF assms]
          split: sum.splits)
  have closest: "closestFloodZone T sc reports' ds = closestFloodZone T sc reports ds"
    for sc :: latlng and ds
    by (simp add: closestFloodZone_def closestReports_severity [OF assms])
  have "getRoute T N (s\<lparr>floodReports := reports\<rparr>\<lparr>floodReports := reports'\<rparr>) =
           apfst (\<lambda>t. t\<lparr>floodReports := reports'\<rparr>) (getRoute T N (s\<lparr>floodReports := reports\<rparr>))"
    by (rule getRoute_reports) (simp_all add: check closest)
  then have run: "getRoute T N (s\<lparr>floodReports := reports'\<rparr>) =
           apfst (\<lambda>t. t\<lparr>floodReports := reports'\<rparr>) (getRoute T N (s\<lparr>floodReports := reports\<rparr>))"
    by simp
  from check closest run show ?thesis by blast
qed

text \<open>The theorem on the report of the inputs, once of high and once of low severity.\<close>

theorem severity_noninterference_witness:
  "list_all2 sameButSeverity [midReport] [midReport\<lparr>severity := ''Low''\<rparr>]
   \<and> checkRouteForFloods vertexTurf mainRoute [midReport\<lparr>severity := ''Low''\<rparr>] [] = Inr True
   \<and> closestFloodZone vertexTurf \<lparr>lat = 17.30, lng = 78.40\<rparr> [midReport\<lparr>severity := ''Low''\<rparr>] [] =
       Inr (Some (Feature (Point (78.45, 17.35))))
   \<and> snd (getRoute vertexTurf straightNet (trip [midReport\<lparr>severity := ''Low''\<rparr>] [])) =
       snd (getRoute vertexTurf straightNet (trip [midReport] []))"
proof -
  have same: "list_all2 sameButSeverity [midReport] [midReport\<lparr>severity := ''Low''\<rparr>]"
    by (simp add: sameButSeverity_def)
  note inst = severity_noninterference [OF same, of vertexTurf _ "[]" _ straightNet "trip [] []"]
  have "checkRouteForFloods vertexTurf mainRoute [midReport] [] = Inr True"
    by (simp add: model_defs instance_defs)
  with inst [THEN conjunct1, of mainRoute]
  have check: "checkRouteForFloods vertexTurf mainRoute [midReport\<lparr>severity := ''Low''\<rparr>] [] = Inr True"
    by simp
  have "closestFloodZone vertexTurf \<lparr>lat = 17.30, lng = 78.40\<rparr> [midReport] [] =
       Inr (Some (Feature (Point (78.45, 17.35))))"
    by (simp add: model_defs instance_defs)
  with inst [THEN conjunct2, THEN conjunct1, of "\<lparr>lat = 17.30, lng = 78.40\<rparr>"]
  have closest: "closestFloodZone vertexTurf \<lparr>lat = 17.30, lng = 78.40\<rparr>
       [midReport\<lparr>severity := ''Low''\<rparr>] [] = Inr (Some (Feature (Point (78.45, 17.35))))"
    by simp
  have trips: "(trip [] [])\<lparr>floodReports := rs\<rparr> = trip rs []" for rs
    by (simp add: trip_def)
  from inst [THEN conjunct2, THEN conjunct2]
  have "snd (getRoute vertexTurf straightNet (trip [midReport\<lparr>severity := ''Low''\<rparr>] [])) =
       snd (getRoute vertexTurf straightNet (trip [midReport] []))"
    by (simp add: trips)
  with same check closest show ?thesis by blast
qed

subsection \<open>C9: drawn items of other types\<close>

text \<open>
  C9. Two lists of drawn items that hold the same items of type \<open>rectangle\<close> or
  \<open>polygon\<close>, in the same order, and differ in their items of any other type, give the
  same result of the intersection check and the same selected flood zone, for every
  route, origin and list of reports.
\<close>

theorem other_types_ignored:
  fixes startCoords :: latlng
  assumes "filter (\<lambda>item. item_type item = ''rectangle'' \<or> item_type item = ''polygon'') drawn' =
           filter (\<lambda>item. item_type item = ''rectangle'' \<or> item_type item = ''polygon'') drawn"
  shows "checkRouteForFloods T routeCoords reports drawn' =
           checkRouteForFloods T routeCoords reports drawn
       \<and> closestFloodZone T startCoords reports drawn' =
           closestFloodZone T startCoords reports drawn"
proof -
  have areas: "filter isArea drawn' = filter isArea drawn"
    using assms by (simp add: isArea_def [abs_def])
  have "checkDrawn T routeLine drawn' = checkDrawn T routeLine drawn" for routeLine
    using checkDrawn_filter [of T routeLine drawn'] checkDrawn_filter [of T routeLine drawn] areas
    by simp
  then have check: "checkRouteForFloods T routeCoords reports drawn' =
           checkRouteForFloods T routeCoords reports drawn"
    by (simp add: checkRouteForFloods_def split: sum.splits)
  have "closestDrawn T origin drawn' acc = closestDrawn T origin drawn acc" for origin acc
    using closestDrawn_filter [of T origin drawn' acc] closestDrawn_filter [of T origin drawn acc]
      areas
    by simp
  then have "closestFloodZone T startCoords reports drawn' =
           closestFloodZone T startCoords reports drawn"
    by (simp add: closestFloodZone_def)
  with check show ?thesis by simp
qed

text \<open>
  The theorem on the rectangle that touches the route, alone and among markers: the
  check is true and the rectangle's outer ring is selected either way.
\<close>

theorem other_types_ignored_witness:
  "filter (\<lambda>item. item_type item = ''rectangle'' \<or> item_type item = ''polygon'')
     [marker, cornerRectangle, marker] =
   filter (\<lambda>item. item_type item = ''rectangle'' \<or> item_type item = ''polygon'')
     [cornerRectangle]
   \<and> checkRouteForFloods vertexTurf mainRoute [] [marker, cornerRectangle, marker] = Inr True
   \<and> closestFloodZone vertexTurf \<lparr>lat = 17.30, lng = 78.40\<rparr> [] [marker, cornerRectangle, marker] =
       Inr (Some (Coordinates
         [(78.45, 17.35), (78.46, 17.35), (78.46, 17.36), (78.45, 17.36), (78.45, 17.35)]))"
proof -
  have same: "filter (\<lambda>item. item_type item = ''rectangle'' \<or> item_type item = ''polygon'')
     [marker, cornerRectangle, marker] =
   filter (\<lambda>item. item_type item = ''rectangle'' \<or> item_type item = ''polygon'')
     [cornerRectangle]"
    by (simp add: marker_def cornerRectangle_def)
  note inst = other_types_ignored [OF same, of vertexTurf _ "[]"]
  have "checkRouteForFloods vertexTurf mainRoute [] [cornerRectangle] = Inr True"
    by (simp add: model_defs instance_defs)
  with inst [THEN conjunct1, of mainRoute]
  have check: "checkRouteForFloods vertexTurf mainRoute [] [marker, cornerRectangle, marker] = Inr True"
    by simp
  have "closestFloodZone vertexTurf \<lparr>lat = 17.30, lng = 78.40\<rparr> [] [cornerRectangle] =
       Inr (Some (Coordinates
         [(78.45, 17.35), (78.46, 17.35), (78.46, 17.36), (78.45, 17.36), (78.45, 17.35)]))"
    by (simp add: model_defs instance_defs)
  with inst [THEN conjunct2, of "\<lparr>lat = 17.30, lng = 78.40\<rparr>"]
  have "closestFloodZone vertexTurf \<lparr>lat = 17.30, lng = 78.40\<rparr> [] [marker, cornerRectangle, marker] =
       Inr (Some (Coordinates
         [(78.45, 17.35), (78.46, 17.35), (78.46, 17.36), (78.45, 17.36), (78.45, 17.35)]))"
    by simp
  with same check show ?thesis by blast
qed

end
